theory Spec2Isabelle
  imports Complex_Main
begin

section \<open>Strings and regular expressions\<close>

text \<open>
  Python strings are modelled as \<^typ>\<open>string\<close>: a character is a code point in the
  range \<open>0..255\<close> (Latin-1). Strings with code points beyond that range are outside the
  model. On this range \<open>str.lower()\<close> maps \<open>A..Z\<close> and the accented capitals
  \<open>0xC0..0xD6\<close> and \<open>0xD8..0xDE\<close> to the letter 32 code points further on and leaves
  every other character alone; two characters match under \<open>re.IGNORECASE\<close> exactly
  when they have the same lower-case form.
\<close>

definition lower_char :: "char \<Rightarrow> char" where
  "lower_char c =
     (let n = (of_char c :: nat)
      in if (65 \<le> n \<and> n \<le> 90) \<or> (192 \<le> n \<and> n \<le> 214) \<or> (216 \<le> n \<and> n \<le> 222)
         then char_of (n + 32) else c)"

definition lower :: "string \<Rightarrow> string" where
  "lower s = map lower_char s"

text \<open>
  The word characters of \<open>\w\<close> on a \<open>str\<close> pattern: the underscore and the characters
  that \<open>str.isalnum()\<close> accepts, which in the range \<open>0..255\<close> are the digits, the
  letters \<open>A..Z\<close> and \<open>a..z\<close>, the ordinal indicators \<open>0xAA\<close> and \<open>0xBA\<close>, the
  superscript digits \<open>0xB2\<close>, \<open>0xB3\<close> and \<open>0xB9\<close>, the micro sign \<open>0xB5\<close>, the
  fractions \<open>0xBC..0xBE\<close> and the accented letters \<open>0xC0..0xFF\<close> without the signs
  \<open>0xD7\<close> and \<open>0xF7\<close>.
\<close>

definition is_word_char :: "char \<Rightarrow> bool" where
  "is_word_char c = (let n = (of_char c :: nat) in
     (48 \<le> n \<and> n \<le> 57) \<or> (65 \<le> n \<and> n \<le> 90) \<or> n = 95 \<or> (97 \<le> n \<and> n \<le> 122) \<or>
     n = 170 \<or> n = 178 \<or> n = 179 \<or> n = 181 \<or> n = 185 \<or> n = 186 \<or>
     (188 \<le> n \<and> n \<le> 190) \<or> (192 \<le> n \<and> n \<le> 214) \<or> (216 \<le> n \<and> n \<le> 246) \<or>
     (248 \<le> n \<and> n \<le> 255))"

text \<open>The characters \<open>str.strip()\<close> removes, those that \<open>str.isspace()\<close> accepts: tab to
  carriage return, the separators \<open>0x1c..0x1f\<close>, the space, the next-line control
  \<open>0x85\<close> and the no-break space \<open>0xA0\<close>.\<close>

definition is_space :: "char \<Rightarrow> bool" where
  "is_space c = (let n = (of_char c :: nat) in
     (9 \<le> n \<and> n \<le> 13) \<or> (28 \<le> n \<and> n \<le> 32) \<or> n = 133 \<or> n = 160)"

definition strip :: "string \<Rightarrow> string" where
  "strip s = rev (dropWhile is_space (rev (dropWhile is_space s)))"

text \<open>\<open>sub in text\<close> on strings: \<open>sub\<close> occurs as a contiguous substring.\<close>

fun starts_with :: "string \<Rightarrow> string \<Rightarrow> bool" where
  "starts_with [] t = True"
| "starts_with (c # cs) [] = False"
| "starts_with (c # cs) (x # xs) = (c = x \<and> starts_with cs xs)"

fun contains_str :: "string \<Rightarrow> string \<Rightarrow> bool" where
  "contains_str sub [] = (sub = [])"
| "contains_str sub (x # xs) = (starts_with sub (x # xs) \<or> contains_str sub xs)"

text \<open>\<open>sep.join(parts)\<close>.\<close>

fun join :: "string \<Rightarrow> string list \<Rightarrow> string" where
  "join sep [] = []"
| "join sep [p] = p"
| "join sep (p # q # ps) = p @ sep @ join sep (q # ps)"

text \<open>
  The fragment of Python's \<open>re\<close> syntax that the pattern tables use: literals, \<open>.\<close>,
  \<open>\w\<close>, \<open>\b\<close>, \<open>r?\<close>, \<open>r*\<close>, concatenation and \<open>r|s|...\<close>.
\<close>

datatype regex =
    Lit string
  | Dot
  | WordC
  | WordB
  | Opt regex
  | Star regex
  | Cat regex regex
  | Alts "regex list"

text \<open>A cursor into the text: the character before it (if any) and the text after it.\<close>

type_synonym cursor = "char option \<times> string"

text \<open>Matching a literal; \<open>ic\<close> is the flag \<open>re.IGNORECASE\<close>.\<close>

fun advance :: "bool \<Rightarrow> cursor \<Rightarrow> string \<Rightarrow> cursor option" where
  "advance ic cur [] = Some cur"
| "advance ic (p, []) (c # cs) = None"
| "advance ic (p, x # xs) (c # cs) =
     (if (if ic then lower_char x = lower_char c else x = c)
      then advance ic (Some x, xs) cs else None)"

definition word_before :: "cursor \<Rightarrow> bool" where
  "word_before cur = (case fst cur of None \<Rightarrow> False | Some c \<Rightarrow> is_word_char c)"

definition word_after :: "cursor \<Rightarrow> bool" where
  "word_after cur = (case snd cur of [] \<Rightarrow> False | c # _ \<Rightarrow> is_word_char c)"

definition at_boundary :: "cursor \<Rightarrow> bool" where
  "at_boundary cur = (word_before cur \<noteq> word_after cur)"

text \<open>Greedy iteration for \<open>r*\<close>: every round must consume text, longer matches first.\<close>

fun star_iter :: "nat \<Rightarrow> (cursor \<Rightarrow> cursor list) \<Rightarrow> cursor \<Rightarrow> cursor list" where
  "star_iter 0 f cur = [cur]"
| "star_iter (Suc n) f cur =
     concat (map (star_iter n f) (filter (\<lambda>c. length (snd c) < length (snd cur)) (f cur))) @ [cur]"

text \<open>
  The backtracking matcher: the cursors at which a match of the expression that starts
  at the given cursor can end, in the order in which Python tries them.
\<close>

fun rx :: "bool \<Rightarrow> regex \<Rightarrow> cursor \<Rightarrow> cursor list" where
  "rx ic (Lit s) cur = (case advance ic cur s of None \<Rightarrow> [] | Some c \<Rightarrow> [c])"
| "rx ic Dot cur = (case snd cur of [] \<Rightarrow> [] | x # xs \<Rightarrow> if x = CHR 0x0A then [] else [(Some x, xs)])"
| "rx ic WordC cur = (case snd cur of [] \<Rightarrow> [] | x # xs \<Rightarrow> if is_word_char x then [(Some x, xs)] else [])"
| "rx ic WordB cur = (if at_boundary cur then [cur] else [])"
| "rx ic (Opt r) cur = rx ic r cur @ [cur]"
| "rx ic (Star r) cur = star_iter (length (snd cur)) (\<lambda>c. rx ic r c) cur"
| "rx ic (Cat r s) cur = concat (map (\<lambda>c. rx ic s c) (rx ic r cur))"
| "rx ic (Alts rs) cur = concat (map (\<lambda>r. rx ic r cur) rs)"

text \<open>\<open>re.search\<close>: some position of the text starts a match.\<close>

fun search_from :: "bool \<Rightarrow> regex \<Rightarrow> cursor \<Rightarrow> bool" where
  "search_from ic r (p, []) = (rx ic r (p, []) \<noteq> [])"
| "search_from ic r (p, x # xs) = (rx ic r (p, x # xs) \<noteq> [] \<or> search_from ic r (Some x, xs))"

definition re_search :: "bool \<Rightarrow> regex \<Rightarrow> string \<Rightarrow> bool" where
  "re_search ic r t = search_from ic r (None, t)"

text \<open>\<open>re.findall\<close>: the matched substrings, leftmost first and not overlapping.\<close>

function findall_from :: "bool \<Rightarrow> regex \<Rightarrow> cursor \<Rightarrow> string list" where
  "findall_from ic r cur =
     (case rx ic r cur of
        c # _ \<Rightarrow>
          if length (snd c) < length (snd cur)
          then take (length (snd cur) - length (snd c)) (snd cur) # findall_from ic r c
          else (case snd cur of [] \<Rightarrow> [[]] | x # xs \<Rightarrow> [] # findall_from ic r (Some x, xs))
      | [] \<Rightarrow> (case snd cur of [] \<Rightarrow> [] | x # xs \<Rightarrow> findall_from ic r (Some x, xs)))"
  by pat_completeness auto
termination
  by (relation "measure (\<lambda>(ic, r, cur). length (snd cur))") auto

definition re_findall :: "bool \<Rightarrow> regex \<Rightarrow> string \<Rightarrow> string list" where
  "re_findall ic r t = findall_from ic r (None, t)"

text \<open>\<open>re.split\<close>: the pieces of the text between the matches; \<open>part\<close> is the piece
  being collected.\<close>

function split_from :: "bool \<Rightarrow> regex \<Rightarrow> cursor \<Rightarrow> string \<Rightarrow> string list" where
  "split_from ic r cur part =
     (case rx ic r cur of
        c # _ \<Rightarrow>
          if length (snd c) < length (snd cur)
          then part # split_from ic r c []
          else (case snd cur of [] \<Rightarrow> [part] | x # xs \<Rightarrow> split_from ic r (Some x, xs) (part @ [x]))
      | [] \<Rightarrow> (case snd cur of [] \<Rightarrow> [part] | x # xs \<Rightarrow> split_from ic r (Some x, xs) (part @ [x])))"
  by pat_completeness auto
termination
  by (relation "measure (\<lambda>(ic, r, cur, part). length (snd cur))") auto

definition re_split :: "bool \<Rightarrow> regex \<Rightarrow> string \<Rightarrow> string list" where
  "re_split ic r t = split_from ic r (None, t) []"

text \<open>An alternation of literals, \<open>a|b|c\<close>, and a literal between word boundaries,
  \<open>\ba\b\<close>.\<close>

definition lits :: "string list \<Rightarrow> regex" where
  "lits ss = Alts (map Lit ss)"

definition wlit :: "string \<Rightarrow> regex" where
  "wlit s = Cat WordB (Cat (Lit s) WordB)"

section \<open>Relevance scorer\<close>

datatype error = TypeError string | AttributeError string

datatype ScoreDimension =
    SEMANTIC_SIMILARITY | TEMPORAL_RELEVANCE | TAG_OVERLAP | METADATA_MATCH
  | CONTENT_TYPE_MATCH | TECHNOLOGY_ALIGNMENT | CONTEXTUAL_SIMILARITY | USAGE_FREQUENCY

datatype ContextualFactor =
    TASK_CATEGORY | URGENCY_LEVEL | COMPLEXITY_LEVEL | DOMAIN_SPECIFICITY
  | ERROR_CONTEXT | IMPLEMENTATION_STAGE

record ScoringWeights =
  semantic_similarity :: real
  temporal_relevance :: real
  tag_overlap :: real
  metadata_match :: real
  content_type_match :: real
  technology_alignment :: real
  contextual_similarity :: real
  usage_frequency :: real

definition default_weights :: ScoringWeights where
  "default_weights =
     \<lparr>semantic_similarity = 0.30, temporal_relevance = 0.15, tag_overlap = 0.20,
      metadata_match = 0.10, content_type_match = 0.10, technology_alignment = 0.10,
      contextual_similarity = 0.03, usage_frequency = 0.02\<rparr>"

text \<open>
  The values a metadata dictionary holds (\<open>Any\<close> in the source): the values of JSON
  without objects, that is \<open>None\<close>, booleans, integers, floats, strings and lists of
  values. \<open>py_eq\<close> is Python's \<open>==\<close> on them: booleans, integers and floats compare as
  numbers (\<open>True == 1\<close>), lists element by element, and values of different kinds are
  unequal.
\<close>

datatype pyval = PNone | PBool bool | PInt int | PFloat real | PStr string | PList "pyval list"

fun py_num :: "pyval \<Rightarrow> real option" where
  "py_num (PBool b) = Some (if b then 1 else 0)"
| "py_num (PInt i) = Some (real_of_int i)"
| "py_num (PFloat x) = Some x"
| "py_num _ = None"

fun py_eq :: "pyval \<Rightarrow> pyval \<Rightarrow> bool"
  and py_eq_list :: "pyval list \<Rightarrow> pyval list \<Rightarrow> bool" where
  "py_eq (PList xs) (PList ys) = py_eq_list xs ys"
| "py_eq (PStr a) (PStr b) = (a = b)"
| "py_eq PNone PNone = True"
| "py_eq a b = (case (py_num a, py_num b) of (Some x, Some y) \<Rightarrow> x = y | _ \<Rightarrow> False)"
| "py_eq_list [] [] = True"
| "py_eq_list (x # xs) (y # ys) = (py_eq x y \<and> py_eq_list xs ys)"
| "py_eq_list _ _ = False"

text \<open>
  \<open>target_technologies\<close> is a set, kept as a list of its elements (the order and
  repetitions of the list do not matter: the functions below go through \<open>set\<close>).
  \<open>metadata_requirements\<close> is a dictionary that the code iterates, kept as a list of its
  items; \<open>contextual_factors\<close> is only looked up, so it is a map (\<open>None\<close> and the empty
  dictionary are both the empty map: the code treats them alike). Floats are modelled as
  reals.
\<close>

record ScoringContext =
  query_text :: string
  query_tags :: "string list"
  target_technologies :: "string list"
  task_category :: string
  content_type_preference :: "string option"
  temporal_preference :: "string option"
  metadata_requirements :: "(string \<times> pyval) list"
  contextual_factors :: "ContextualFactor \<rightharpoonup> string"

text \<open>A \<open>datetime\<close> is a number of microseconds on the clock's time line; a candidate's
  timestamp may be \<open>None\<close>.\<close>

record MemoryCandidate =
  content :: string
  tags :: "string list"
  metadata :: "string \<rightharpoonup> pyval"
  timestamp :: "int option"
  content_hash :: string
  base_similarity_score :: real
  usage_count :: int

record RelevanceScore =
  total_score :: real
  dimension_scores :: "ScoreDimension \<Rightarrow> real"
  confidence :: real
  reasoning :: "string list"
  boosters :: "string list"
  penalties :: "string list"

text \<open>\<open>timedelta.days\<close>: whole days, rounded towards minus infinity.\<close>

definition timedelta_days :: "int \<Rightarrow> int" where
  "timedelta_days d = d div 86400000000"

definition technology_keywords :: "string \<rightharpoonup> string list" where
  "technology_keywords = map_of
     [(''python'', [''python'', ''py'', ''pip'', ''conda'', ''pytest'', ''django'', ''flask'', ''fastapi'']),
      (''javascript'', [''javascript'', ''js'', ''node'', ''npm'', ''yarn'', ''react'', ''vue'', ''angular'']),
      (''typescript'', [''typescript'', ''ts'', ''tsc'', ''tsx'']),
      (''docker'', [''docker'', ''container'', ''dockerfile'', ''compose'', ''k8s'', ''kubernetes'']),
      (''database'', [''database'', ''db'', ''sql'', ''postgres'', ''mysql'', ''mongo'', ''redis'']),
      (''api'', [''api'', ''rest'', ''graphql'', ''endpoint'', ''microservice'', ''service'']),
      (''web'', [''web'', ''http'', ''https'', ''html'', ''css'', ''frontend'', ''backend'']),
      (''cloud'', [''aws'', ''azure'', ''gcp'', ''cloud'', ''serverless'', ''lambda'']),
      (''testing'', [''test'', ''testing'', ''unit'', ''integration'', ''e2e'', ''spec'', ''mock'']),
      (''security'', [''security'', ''auth'', ''oauth'', ''jwt'', ''ssl'', ''tls'', ''encryption''])]"

definition content_type_patterns :: "string \<rightharpoonup> regex list" where
  "content_type_patterns = map_of
     [(''decision'',
        [lits [''decided'', ''chosen'', ''selected'', ''going with'', ''will use''],
         lits [''solution'', ''approach'', ''strategy'', ''plan''],
         lits [''resolved'', ''fixed'', ''implemented'', ''deployed'']]),
      (''error'',
        [Alts [Lit ''error'', Lit ''exception'', Cat (Lit ''faile'') (Opt (Lit ''d'')),
               Lit ''crash'', Lit ''bug''],
         lits [''not working'', ''broken'', ''issue'', ''problem''],
         lits [''debug'', ''troubleshoot'', ''fix'']]),
      (''implementation'',
        [lits [''implement'', ''create'', ''build'', ''develop'', ''code''],
         lits [''function'', ''method'', ''class'', ''component'', ''module''],
         lits [''feature'', ''functionality'', ''requirement'']]),
      (''configuration'',
        [lits [''config'', ''configuration'', ''setup'', ''install''],
         lits [''environment'', ''settings'', ''parameters''],
         lits [''deploy'', ''deployment'', ''infrastructure'']]),
      (''best_practice'',
        [lits [''best practice'', ''recommendation'', ''should'', ''ought''],
         lits [''pattern'', ''convention'', ''standard'', ''guideline''],
         lits [''lesson learned'', ''experience'', ''advice'']]),
      (''performance'',
        [lits [''performance'', ''optimize'', ''speed'', ''fast'', ''slow''],
         lits [''memory'', ''cpu'', ''resource'', ''scalability''],
         lits [''benchmark'', ''profiling'', ''bottleneck'']])]"

definition calculate_temporal_relevance :: "int \<Rightarrow> MemoryCandidate \<Rightarrow> ScoringContext \<Rightarrow> real" where
  "calculate_temporal_relevance now candidate ctx =
     (case timestamp candidate of
        None \<Rightarrow> 0.5
      | Some ts \<Rightarrow>
          (let days = timedelta_days (now - ts) in
           if temporal_preference ctx = Some ''recent''
           then exp (- 0.1 * real_of_int days / 30)
           else if temporal_preference ctx = Some ''historical''
           then (if days > 90 then 0.8 + 0.2 * min 1.0 (real_of_int (days - 90) / 365) else 0.6)
           else if days \<le> 7 then 1.0
           else if days \<le> 30 then 0.9
           else if days \<le> 90 then 0.8
           else if days \<le> 365 then 0.6
           else 0.4))"

definition calculate_tag_overlap :: "MemoryCandidate \<Rightarrow> ScoringContext \<Rightarrow> real" where
  "calculate_tag_overlap candidate ctx =
     (if query_tags ctx = [] \<or> tags candidate = [] then 0.0
      else
        (let query_tags_set = set (map lower (query_tags ctx));
             candidate_tags_set = set (map lower (tags candidate));
             intersection = query_tags_set \<inter> candidate_tags_set;
             union = query_tags_set \<union> candidate_tags_set
         in if union = {} then 0.0
            else
              (let jaccard = real (card intersection) / real (card union);
                   precision = (if candidate_tags_set = {} then 0
                                else real (card intersection) / real (card candidate_tags_set))
               in 0.7 * jaccard + 0.3 * precision)))"

text \<open>What one requirement adds to \<open>matches\<close>, given the candidate's value for its key.\<close>

definition metadata_points :: "pyval \<Rightarrow> pyval \<Rightarrow> real" where
  "metadata_points candidate_value expected_value =
     (case expected_value of
        PList vs \<Rightarrow> (if list_ex (\<lambda>v. py_eq v candidate_value) vs then 1 else 0)
      | _ \<Rightarrow>
          if py_eq candidate_value expected_value then 1
          else (case (candidate_value, expected_value) of
                  (PStr c, PStr e) \<Rightarrow> (if contains_str (lower e) (lower c) then 0.7 else 0)
                | _ \<Rightarrow> 0))"

definition calculate_metadata_match :: "MemoryCandidate \<Rightarrow> ScoringContext \<Rightarrow> real" where
  "calculate_metadata_match candidate ctx =
     (if metadata_requirements ctx = [] then 0.5
      else
        (let matches = sum_list (map (\<lambda>(key, expected_value).
                           case metadata candidate key of
                             None \<Rightarrow> 0
                           | Some candidate_value \<Rightarrow> metadata_points candidate_value expected_value)
                         (metadata_requirements ctx));
             total_requirements = length (metadata_requirements ctx)
         in if total_requirements > 0 then matches / real total_requirements else 0.5))"

definition calculate_content_type_match :: "MemoryCandidate \<Rightarrow> ScoringContext \<Rightarrow> real" where
  "calculate_content_type_match candidate ctx =
     (case content_type_preference ctx of
        None \<Rightarrow> 0.5
      | Some pref \<Rightarrow>
          if pref = [] then 0.5
          else
            (let content_lower = lower (content candidate);
                 patterns = (case content_type_patterns pref of None \<Rightarrow> [] | Some ps \<Rightarrow> ps);
                 matches = length (filter (\<lambda>pattern. re_search True pattern content_lower) patterns)
             in if patterns = [] then 0.0
                else min 1.0 (real matches / real (length patterns))))"

definition tech_aligned :: "MemoryCandidate \<Rightarrow> string \<Rightarrow> bool" where
  "tech_aligned candidate target_tech =
     (let content_lower = lower (content candidate);
          tags_lower = map lower (tags candidate);
          tech_keywords = (case technology_keywords (lower target_tech) of
                             None \<Rightarrow> [lower target_tech] | Some ks \<Rightarrow> ks);
          found_in_content = list_ex (\<lambda>keyword. contains_str keyword content_lower) tech_keywords;
          found_in_tags = list_ex (\<lambda>keyword. contains_str keyword (join '' '' tags_lower)) tech_keywords
      in found_in_content \<or> found_in_tags)"

definition calculate_technology_alignment :: "MemoryCandidate \<Rightarrow> ScoringContext \<Rightarrow> real" where
  "calculate_technology_alignment candidate ctx =
     (if target_technologies ctx = [] then 0.5
      else
        (let aligned_techs = card (Set.filter (tech_aligned candidate) (set (target_technologies ctx)));
             total_target_techs = card (set (target_technologies ctx))
         in if total_target_techs > 0 then real aligned_techs / real total_target_techs else 0.5))"

definition calculate_contextual_similarity :: "MemoryCandidate \<Rightarrow> ScoringContext \<Rightarrow> real" where
  "calculate_contextual_similarity candidate ctx =
     (let score0 = 0.5;
          score1 = (case contextual_factors ctx TASK_CATEGORY of
                      None \<Rightarrow> score0
                    | Some target_category \<Rightarrow>
                        (let s = (if contains_str (lower target_category) (lower (content candidate))
                                  then score0 + 0.2 else score0)
                         in if lower target_category \<in> set (map lower (tags candidate))
                            then s + 0.3 else s));
          score2 = (case contextual_factors ctx ERROR_CONTEXT of
                      None \<Rightarrow> score1
                    | Some _ \<Rightarrow>
                        if list_ex (\<lambda>indicator. contains_str indicator (lower (content candidate)))
                             [''error'', ''exception'', ''fix'', ''debug'', ''solution'']
                        then score1 + 0.3 else score1)
      in min 1.0 score2)"

definition calculate_usage_frequency :: "MemoryCandidate \<Rightarrow> ScoringContext \<Rightarrow> real" where
  "calculate_usage_frequency candidate ctx =
     (if usage_count candidate \<le> 0 then 0.0
      else min 1.0 (ln (real_of_int (usage_count candidate + 1)) / ln 10))"

text \<open>
  The contextual adjustments. The urgency branch subtracts the candidate's timestamp from
  the current time without a check for \<open>None\<close>; that subtraction raises \<open>TypeError\<close>.
\<close>

definition urgency_adjustment :: "int \<Rightarrow> MemoryCandidate \<Rightarrow> ScoringContext \<Rightarrow> error + real \<times> string list" where
  "urgency_adjustment now candidate ctx =
     (if contextual_factors ctx URGENCY_LEVEL = Some ''high''
      then (case timestamp candidate of
              None \<Rightarrow> Inl (TypeError ''unsupported operand type(s) for -: datetime and NoneType'')
            | Some ts \<Rightarrow>
                if timedelta_days (now - ts) \<le> 7
                then Inr (0.1, [''Recent memory for urgent task''])
                else Inr (0, []))
      else Inr (0, []))"

definition complexity_indicators :: "string \<rightharpoonup> string list" where
  "complexity_indicators = map_of
     [(''simple'', [''simple'', ''basic'', ''easy'', ''straightforward'']),
      (''complex'', [''complex'', ''advanced'', ''sophisticated'', ''intricate''])]"

definition complexity_adjustment :: "MemoryCandidate \<Rightarrow> ScoringContext \<Rightarrow> real \<times> string list" where
  "complexity_adjustment candidate ctx =
     (case contextual_factors ctx COMPLEXITY_LEVEL of
        None \<Rightarrow> (0, [])
      | Some complexity \<Rightarrow>
          (case complexity_indicators complexity of
             None \<Rightarrow> (0, [])
           | Some indicators \<Rightarrow>
               if list_ex (\<lambda>indicator. contains_str indicator (lower (content candidate))) indicators
               then (0.05, [''Complexity alignment ('' @ complexity @ '')''])
               else (0, [])))"

definition domain_adjustment :: "MemoryCandidate \<Rightarrow> ScoringContext \<Rightarrow> real \<times> string list" where
  "domain_adjustment candidate ctx =
     (case contextual_factors ctx DOMAIN_SPECIFICITY of
        None \<Rightarrow> (0, [])
      | Some domain \<Rightarrow>
          if domain = [] then (0, [])
          else if contains_str (lower domain) (lower (content candidate)) then (0, [])
          else (- 0.05, [''Domain mismatch'']))"

definition stage_keywords :: "string \<rightharpoonup> string list" where
  "stage_keywords = map_of
     [(''planning'', [''plan'', ''design'', ''architecture'', ''strategy'']),
      (''development'', [''implement'', ''code'', ''build'', ''develop'']),
      (''testing'', [''test'', ''verify'', ''validate'', ''check'']),
      (''deployment'', [''deploy'', ''release'', ''production'', ''launch'']),
      (''maintenance'', [''maintain'', ''update'', ''patch'', ''fix''])]"

definition stage_adjustment :: "MemoryCandidate \<Rightarrow> ScoringContext \<Rightarrow> real \<times> string list" where
  "stage_adjustment candidate ctx =
     (case contextual_factors ctx IMPLEMENTATION_STAGE of
        None \<Rightarrow> (0, [])
      | Some stage \<Rightarrow>
          (case stage_keywords stage of
             None \<Rightarrow> (0, [])
           | Some keywords \<Rightarrow>
               if list_ex (\<lambda>keyword. contains_str keyword (lower (content candidate))) keywords
               then (0.08, [''Implementation stage match ('' @ stage @ '')''])
               else (0, [])))"

text \<open>The adjusted score with the new boosters and the new penalties.\<close>

definition apply_contextual_adjustments ::
    "int \<Rightarrow> real \<Rightarrow> MemoryCandidate \<Rightarrow> ScoringContext \<Rightarrow> error + real \<times> string list \<times> string list" where
  "apply_contextual_adjustments now base_score candidate ctx =
     (case urgency_adjustment now candidate ctx of
        Inl e \<Rightarrow> Inl e
      | Inr (d1, b1) \<Rightarrow>
          (let (d2, b2) = complexity_adjustment candidate ctx;
               (d3, p3) = domain_adjustment candidate ctx;
               (d4, b4) = stage_adjustment candidate ctx
           in Inr (base_score + d1 + d2 + d3 + d4, b1 @ b2 @ b4, p3)))"

definition all_dimensions :: "ScoreDimension list" where
  "all_dimensions =
     [SEMANTIC_SIMILARITY, TEMPORAL_RELEVANCE, TAG_OVERLAP, METADATA_MATCH,
      CONTENT_TYPE_MATCH, TECHNOLOGY_ALIGNMENT, CONTEXTUAL_SIMILARITY, USAGE_FREQUENCY]"

definition calculate_confidence :: "(ScoreDimension \<Rightarrow> real) \<Rightarrow> real \<Rightarrow> real" where
  "calculate_confidence scores tot =
     (let high_scores = length (filter (\<lambda>d. scores d > 0.7) all_dimensions);
          low_scores = length (filter (\<lambda>d. scores d < 0.3) all_dimensions);
          base_confidence =
            (if high_scores \<ge> 3 then 0.9
             else if high_scores \<ge> 2 then 0.8
             else if low_scores \<ge> 4 then 0.4
             else 0.6)
      in if tot > 0.9 \<or> tot < 0.1 then base_confidence * 0.9 else base_confidence)"

text \<open>The display name of a dimension: its value with \<open>_\<close> replaced by a space, in title
  case.\<close>

fun dimension_title :: "ScoreDimension \<Rightarrow> string" where
  "dimension_title SEMANTIC_SIMILARITY = ''Semantic Similarity''"
| "dimension_title TEMPORAL_RELEVANCE = ''Temporal Relevance''"
| "dimension_title TAG_OVERLAP = ''Tag Overlap''"
| "dimension_title METADATA_MATCH = ''Metadata Match''"
| "dimension_title CONTENT_TYPE_MATCH = ''Content Type Match''"
| "dimension_title TECHNOLOGY_ALIGNMENT = ''Technology Alignment''"
| "dimension_title CONTEXTUAL_SIMILARITY = ''Contextual Similarity''"
| "dimension_title USAGE_FREQUENCY = ''Usage Frequency''"

text \<open>
  The reasoning lines. \<open>fmt\<close> stands for the float format \<open>:.2f\<close>, which has no counterpart
  on reals; it is a parameter of the model. Sorting by decreasing score is stable, as
  \<open>sorted(..., reverse=True)\<close> is.
\<close>

definition generate_reasoning ::
    "(real \<Rightarrow> string) \<Rightarrow> (ScoreDimension \<Rightarrow> real) \<Rightarrow> string list \<Rightarrow> string list \<Rightarrow> string list" where
  "generate_reasoning fmt scores bs ps =
     (let sorted_dimensions = sort_key (\<lambda>d. - scores d) all_dimensions;
          top_dimensions = take 3 sorted_dimensions
      in map (\<lambda>d. dimension_title d @ '': '' @ fmt (scores d) @ '' (strong contribution)'')
           (filter (\<lambda>d. scores d > 0.6) top_dimensions)
         @ (if bs = [] then [] else [''Positive factors: '' @ join '', '' (take 3 bs)])
         @ (if ps = [] then [] else [''Limiting factors: '' @ join '', '' (take 2 ps)]))"

text \<open>
  \<open>score_relevance\<close> in four parts: the dictionary of the eight dimension scores, the
  boosters and penalties noted while it is filled, the weighted sum, and the function
  itself, which applies the contextual adjustments and clamps the total.
\<close>

definition score_dimensions :: "int \<Rightarrow> MemoryCandidate \<Rightarrow> ScoringContext \<Rightarrow> ScoreDimension \<Rightarrow> real" where
  "score_dimensions now candidate ctx d =
     (case d of
        SEMANTIC_SIMILARITY \<Rightarrow> base_similarity_score candidate
      | TEMPORAL_RELEVANCE \<Rightarrow> calculate_temporal_relevance now candidate ctx
      | TAG_OVERLAP \<Rightarrow> calculate_tag_overlap candidate ctx
      | METADATA_MATCH \<Rightarrow> calculate_metadata_match candidate ctx
      | CONTENT_TYPE_MATCH \<Rightarrow> calculate_content_type_match candidate ctx
      | TECHNOLOGY_ALIGNMENT \<Rightarrow> calculate_technology_alignment candidate ctx
      | CONTEXTUAL_SIMILARITY \<Rightarrow> calculate_contextual_similarity candidate ctx
      | USAGE_FREQUENCY \<Rightarrow> calculate_usage_frequency candidate ctx)"

definition dimension_boosters :: "(ScoreDimension \<Rightarrow> real) \<Rightarrow> string list" where
  "dimension_boosters scores =
     (if scores SEMANTIC_SIMILARITY > 0.8 then [''High semantic similarity''] else []) @
     (if scores TAG_OVERLAP > 0.7 then [''Strong tag alignment''] else []) @
     (if scores TECHNOLOGY_ALIGNMENT > 0.8 then [''Perfect technology match''] else [])"

definition dimension_penalties :: "(ScoreDimension \<Rightarrow> real) \<Rightarrow> string list" where
  "dimension_penalties scores =
     (if scores SEMANTIC_SIMILARITY > 0.8 then []
      else if scores SEMANTIC_SIMILARITY < 0.3 then [''Low semantic similarity''] else [])"

definition weighted_total :: "ScoringWeights \<Rightarrow> (ScoreDimension \<Rightarrow> real) \<Rightarrow> real" where
  "weighted_total weights scores =
     scores SEMANTIC_SIMILARITY * semantic_similarity weights +
     scores TEMPORAL_RELEVANCE * temporal_relevance weights +
     scores TAG_OVERLAP * tag_overlap weights +
     scores METADATA_MATCH * metadata_match weights +
     scores CONTENT_TYPE_MATCH * content_type_match weights +
     scores TECHNOLOGY_ALIGNMENT * technology_alignment weights +
     scores CONTEXTUAL_SIMILARITY * contextual_similarity weights +
     scores USAGE_FREQUENCY * usage_frequency weights"

definition score_relevance ::
    "(real \<Rightarrow> string) \<Rightarrow> int \<Rightarrow> MemoryCandidate \<Rightarrow> ScoringContext \<Rightarrow> ScoringWeights option
       \<Rightarrow> error + RelevanceScore" where
  "score_relevance fmt now candidate ctx weights_opt =
     (let weights = (case weights_opt of None \<Rightarrow> default_weights | Some w \<Rightarrow> w);
          scores = score_dimensions now candidate ctx
      in case apply_contextual_adjustments now (weighted_total weights scores) candidate ctx of
           Inl e \<Rightarrow> Inl e
         | Inr (adjusted, new_boosters, new_penalties) \<Rightarrow>
             (let bs = dimension_boosters scores @ new_boosters;
                  ps = dimension_penalties scores @ new_penalties
              in Inr \<lparr>total_score = min 1.0 (max 0.0 adjusted),
                      dimension_scores = scores,
                      confidence = calculate_confidence scores adjusted,
                      reasoning = generate_reasoning fmt scores bs ps,
                      boosters = bs,
                      penalties = ps\<rparr>))"

definition get_optimal_weights_for_context :: "ScoringContext \<Rightarrow> ScoringWeights" where
  "get_optimal_weights_for_context ctx =
     (let w0 = default_weights;
          w1 = (if temporal_preference ctx = Some ''recent''
                then w0\<lparr>temporal_relevance := 0.25, semantic_similarity := 0.25\<rparr> else w0);
          w2 = (case content_type_preference ctx of
                  None \<Rightarrow> w1
                | Some pref \<Rightarrow>
                    if pref = [] then w1
                    else w1\<lparr>content_type_match := 0.20, semantic_similarity := 0.25\<rparr>);
          w3 = (if target_technologies ctx = [] then w2
                else w2\<lparr>technology_alignment := 0.20, tag_overlap := 0.25\<rparr>);
          w4 = (case contextual_factors ctx ERROR_CONTEXT of
                  None \<Rightarrow> w3
                | Some _ \<Rightarrow>
                    w3\<lparr>semantic_similarity := 0.40, content_type_match := 0.25,
                       temporal_relevance := 0.10\<rparr>)
      in w4)"

definition weights_sum :: "ScoringWeights \<Rightarrow> real" where
  "weights_sum w =
     semantic_similarity w + temporal_relevance w + tag_overlap w + metadata_match w +
     content_type_match w + technology_alignment w + contextual_similarity w + usage_frequency w"

section \<open>Decision orchestrator\<close>

datatype AgentType =
    MEMORY_STORE | MEMORY_CONTEXT | MEMORY_RECALL | MEMORY_CONSOLIDATE | MEMORY_HEALTH
  | TEST_CONTEXT | DEBUG_CONTEXT

datatype TriggerCondition =
    DECISION_MADE | ERROR_ENCOUNTERED | TASK_STARTED | TESTING_NEEDED | DEBUG_NEEDED
  | CONTEXT_NEEDED | HEALTH_CHECK | MAINTENANCE_DUE

fun agent_type_value :: "AgentType \<Rightarrow> string" where
  "agent_type_value MEMORY_STORE = ''memory-store''"
| "agent_type_value MEMORY_CONTEXT = ''memory-context''"
| "agent_type_value MEMORY_RECALL = ''memory-recall''"
| "agent_type_value MEMORY_CONSOLIDATE = ''memory-consolidate''"
| "agent_type_value MEMORY_HEALTH = ''memory-health''"
| "agent_type_value TEST_CONTEXT = ''test-context''"
| "agent_type_value DEBUG_CONTEXT = ''debug-context''"

fun trigger_value :: "TriggerCondition \<Rightarrow> string" where
  "trigger_value DECISION_MADE = ''decision_made''"
| "trigger_value ERROR_ENCOUNTERED = ''error_encountered''"
| "trigger_value TASK_STARTED = ''task_started''"
| "trigger_value TESTING_NEEDED = ''testing_needed''"
| "trigger_value DEBUG_NEEDED = ''debug_needed''"
| "trigger_value CONTEXT_NEEDED = ''context_needed''"
| "trigger_value HEALTH_CHECK = ''health_check''"
| "trigger_value MAINTENANCE_DUE = ''maintenance_due''"

text \<open>The values of the \<open>context\<close> and \<open>data\<close> dictionaries: strings, booleans, a metadata
  dictionary, and nested dictionaries.\<close>

datatype pyobj =
    VStr string
  | VBool bool
  | VMeta "(string \<times> pyval) list"
  | VDict "(string \<times> pyobj) list"

record AgentInvocation =
  agent_type :: AgentType
  trigger :: TriggerCondition
  inv_context :: "(string \<times> pyobj) list"
  inv_priority :: int
  dependencies :: "AgentType list option"

record AgentResult =
  res_agent_type :: AgentType
  success :: bool
  data :: "(string \<times> pyobj) list"
  execution_time :: real
  error_message :: "string option"

text \<open>The orchestrator object: the fields that \<open>execute_invocations\<close> reads and writes.\<close>

record AgentOrchestrator =
  active_agents :: "AgentType set"
  agent_history :: "AgentResult list"

definition decision_indicators :: "regex list" where
  "decision_indicators =
     [lits [''decided'', ''chosen'', ''selected'', ''going with'', ''will use'', ''approach is''],
      lits [''solution'', ''fix'', ''resolved'', ''implemented'', ''working''],
      lits [''architecture'', ''design'', ''pattern'', ''strategy''],
      lits [''learned'', ''discovered'', ''found that'', ''realized''],
      lits [''successfully'', ''completed'', ''finished'', ''deployed''],
      lits [''best practice'', ''recommendation'', ''should''],
      lits [''key insight'', ''important'', ''critical'', ''essential'']]"

definition error_indicators :: "regex list" where
  "error_indicators =
     [Alts [Lit ''error'', Lit ''exception'', Cat (Lit ''faile'') (Opt (Lit ''d'')),
            Lit ''crash'', Lit ''bug''],
      lits [''not working'', ''broken'', ''issue'', ''problem''],
      lits [''debug'', ''troubleshoot'', ''investigate''],
      lits [''timeout'', ''connection'', ''memory leak''],
      lits [''stacktrace'', ''traceback'', ''log shows'']]"

definition task_indicators :: "regex list" where
  "task_indicators =
     [lits [''implement'', ''create'', ''build'', ''develop'', ''add''],
      lits [''feature'', ''function'', ''component'', ''module'', ''system''],
      lits [''need to'', ''want to'', ''going to'', ''planning to''],
      lits [''how do I'', ''how can I'', ''what'' @ [CHR 0x27] @ ''s the best way''],
      lits [''working on'', ''starting'', ''beginning'']]"

definition test_indicators :: "regex list" where
  "test_indicators =
     [lits [''test'', ''testing'', ''spec'', ''verify'', ''validate''],
      lits [''unit test'', ''integration test'', ''e2e test''],
      lits [''check'', ''assert'', ''expect'', ''should''],
      lits [''coverage'', ''test case'', ''test suite''],
      lits [''mock'', ''stub'', ''fixture'']]"

definition context_indicators :: "regex list" where
  "context_indicators =
     [lits [''similar'', ''before'', ''previous'', ''history''],
      lits [''have we'', ''did we'', ''how did we''],
      lits [''last time'', ''previously'', ''earlier''],
      lits [''experience'', ''pattern'', ''lesson learned''],
      lits [''best practice'', ''what worked'', ''what didn'' @ [CHR 0x27] @ ''t work'']]"

definition contains_decision_content :: "string \<Rightarrow> bool" where
  "contains_decision_content text = list_ex (\<lambda>pattern. re_search True pattern text) decision_indicators"

definition contains_error_content :: "string \<Rightarrow> bool" where
  "contains_error_content text = list_ex (\<lambda>pattern. re_search True pattern text) error_indicators"

definition contains_task_content :: "string \<Rightarrow> bool" where
  "contains_task_content text = list_ex (\<lambda>pattern. re_search True pattern text) task_indicators"

definition contains_test_content :: "string \<Rightarrow> bool" where
  "contains_test_content text = list_ex (\<lambda>pattern. re_search True pattern text) test_indicators"

definition contains_context_request :: "string \<Rightarrow> bool" where
  "contains_context_request text = list_ex (\<lambda>pattern. re_search True pattern text) context_indicators"

text \<open>\<open>analyze_context\<close>: up to five invocations, one per kind of content detected, sorted
  by priority with a stable sort. The argument \<open>meta\<close> is the dictionary after
  \<open>metadata or {}\<close>.\<close>

definition analyze_context :: "string \<Rightarrow> (string \<times> pyval) list \<Rightarrow> AgentInvocation list" where
  "analyze_context text meta =
     (let content_lower = lower text;
          invocations =
            (if contains_decision_content content_lower
             then [\<lparr>agent_type = MEMORY_STORE, trigger = DECISION_MADE,
                     inv_context = [(''content'', VStr text), (''metadata'', VMeta meta),
                                    (''auto_store'', VBool True),
                                    (''reason'', VStr ''Decision or solution detected'')],
                     inv_priority = 1, dependencies = None\<rparr>]
             else []) @
            (if contains_error_content content_lower
             then [\<lparr>agent_type = DEBUG_CONTEXT, trigger = ERROR_ENCOUNTERED,
                     inv_context = [(''error_content'', VStr text), (''metadata'', VMeta meta)],
                     inv_priority = 1, dependencies = None\<rparr>]
             else []) @
            (if contains_task_content content_lower
             then [\<lparr>agent_type = MEMORY_CONTEXT, trigger = TASK_STARTED,
                     inv_context = [(''task_description'', VStr text), (''metadata'', VMeta meta)],
                     inv_priority = 1, dependencies = None\<rparr>]
             else []) @
            (if contains_test_content content_lower
             then [\<lparr>agent_type = TEST_CONTEXT, trigger = TESTING_NEEDED,
                     inv_context = [(''test_request'', VStr text), (''metadata'', VMeta meta)],
                     inv_priority = 2, dependencies = None\<rparr>]
             else []) @
            (if contains_context_request content_lower
             then [\<lparr>agent_type = MEMORY_RECALL, trigger = CONTEXT_NEEDED,
                     inv_context = [(''query'', VStr text), (''metadata'', VMeta meta)],
                     inv_priority = 2, dependencies = None\<rparr>]
             else [])
      in sort_key inv_priority invocations)"

text \<open>
  The prompt of an invocation. \<open>str_of\<close> stands for Python's conversion of a value to
  text inside an f-string (\<open>str\<close> of a dictionary, a boolean, ...); on a string it is the
  string itself.
\<close>

definition context_get :: "(pyobj \<Rightarrow> string) \<Rightarrow> (string \<times> pyobj) list \<Rightarrow> string \<Rightarrow> string" where
  "context_get str_of ctx key =
     (case map_of ctx key of None \<Rightarrow> [] | Some (VStr s) \<Rightarrow> s | Some v \<Rightarrow> str_of v)"

definition nl :: string where
  "nl = [CHR 0x0A]"

definition build_agent_prompt :: "(pyobj \<Rightarrow> string) \<Rightarrow> AgentInvocation \<Rightarrow> string" where
  "build_agent_prompt str_of invocation =
     (let base_prompt = ''Agent triggered by: '' @ trigger_value (trigger invocation) @ nl;
          ctx = inv_context invocation
      in if agent_type invocation = MEMORY_STORE then
           base_prompt @ nl @ ''Store this important information in memory:'' @ nl @ nl @
           ''Content: '' @ context_get str_of ctx ''content'' @ nl @ nl @
           ''This was automatically detected as containing decisions, solutions, or important insights that should be preserved for future reference.'' @ nl @ nl @
           ''Please store this with appropriate tags and metadata.'' @ nl
         else if agent_type invocation = MEMORY_CONTEXT then
           base_prompt @ nl @ ''Gather comprehensive context for this task:'' @ nl @ nl @
           ''Task: '' @ context_get str_of ctx ''task_description'' @ nl @ nl @
           ''Please decompose this task, search for related memories, and provide relevant context that would help with successful completion.'' @ nl
         else if agent_type invocation = DEBUG_CONTEXT then
           base_prompt @ nl @ ''Provide debugging context for this issue:'' @ nl @ nl @
           ''Error/Issue: '' @ context_get str_of ctx ''error_content'' @ nl @ nl @
           ''Please search for similar problems, solutions, and debugging approaches from past experiences.'' @ nl
         else if agent_type invocation = TEST_CONTEXT then
           base_prompt @ nl @ ''Provide testing context for this request:'' @ nl @ nl @
           ''Testing Request: '' @ context_get str_of ctx ''test_request'' @ nl @ nl @
           ''Please analyze the target, find testing patterns, and provide comprehensive context for test creation.'' @ nl
         else if agent_type invocation = MEMORY_RECALL then
           base_prompt @ nl @ ''Retrieve relevant memories for this query:'' @ nl @ nl @
           ''Query: '' @ context_get str_of ctx ''query'' @ nl @ nl @
           ''Please search for similar situations, solutions, and relevant historical context.'' @ nl
         else
           base_prompt @ nl @ ''Context: '' @ str_of (VDict ctx) @ nl @ nl @
           ''Please execute your specialized function based on this context.'' @ nl)"

text \<open>The agent as the source has it: nothing is invoked, a canned success is returned.\<close>

definition execute_single_agent :: "(pyobj \<Rightarrow> string) \<Rightarrow> AgentInvocation \<Rightarrow> AgentResult" where
  "execute_single_agent str_of invocation =
     (let agent_prompt = build_agent_prompt str_of invocation
      in \<lparr>res_agent_type = agent_type invocation,
          success = True,
          data = [(''agent'', VStr (agent_type_value (agent_type invocation))),
                  (''trigger'', VStr (trigger_value (trigger invocation))),
                  (''context'', VDict (inv_context invocation)),
                  (''prompt_sent'', VStr agent_prompt)],
          execution_time = 0,
          error_message = None\<rparr>)"

text \<open>
  One round of the loop of \<open>execute_invocations\<close>, on the results collected so far and
  the orchestrator. The agent is a parameter \<open>exec\<close>: \<open>Inr\<close> is the result it returns,
  \<open>Inl msg\<close> an exception whose text is \<open>msg\<close>; \<open>elapsed\<close> is the time the clock
  measures for the invocation. The \<open>finally\<close> clause runs on all three paths: the skip
  by \<open>continue\<close>, the normal end and the handled exception.
\<close>

definition execute_step ::
    "(AgentInvocation \<Rightarrow> string + AgentResult) \<Rightarrow> (AgentInvocation \<Rightarrow> real)
       \<Rightarrow> AgentResult list \<times> AgentOrchestrator \<Rightarrow> AgentInvocation
       \<Rightarrow> AgentResult list \<times> AgentOrchestrator" where
  "execute_step exec elapsed acc invocation =
     (let (results, self) = acc in
      if agent_type invocation \<in> active_agents self
      then (results, self\<lparr>active_agents := active_agents self - {agent_type invocation}\<rparr>)
      else
        (let self1 = self\<lparr>active_agents := insert (agent_type invocation) (active_agents self)\<rparr>
         in case exec invocation of
              Inr result0 \<Rightarrow>
                (let result = result0\<lparr>execution_time := elapsed invocation\<rparr>;
                     self2 = self1\<lparr>agent_history := agent_history self1 @ [result]\<rparr>
                 in (results @ [result],
                     self2\<lparr>active_agents := active_agents self2 - {agent_type invocation}\<rparr>))
            | Inl msg \<Rightarrow>
                (results @ [\<lparr>res_agent_type = agent_type invocation, success = False, data = [],
                             execution_time = 0, error_message = Some msg\<rparr>],
                 self1\<lparr>active_agents := active_agents self1 - {agent_type invocation}\<rparr>)))"

definition execute_invocations ::
    "(AgentInvocation \<Rightarrow> string + AgentResult) \<Rightarrow> (AgentInvocation \<Rightarrow> real)
       \<Rightarrow> AgentOrchestrator \<Rightarrow> AgentInvocation list \<Rightarrow> AgentResult list \<times> AgentOrchestrator" where
  "execute_invocations exec elapsed self invocations =
     foldl (execute_step exec elapsed) ([], self) invocations"

text \<open>The result recorded for an invocation that reaches the agent.\<close>

definition failed_result :: "AgentInvocation \<Rightarrow> string \<Rightarrow> AgentResult" where
  "failed_result invocation msg =
     \<lparr>res_agent_type = agent_type invocation, success = False, data = [],
      execution_time = 0, error_message = Some msg\<rparr>"

definition result_of ::
    "(AgentInvocation \<Rightarrow> string + AgentResult) \<Rightarrow> (AgentInvocation \<Rightarrow> real)
       \<Rightarrow> AgentInvocation \<Rightarrow> AgentResult" where
  "result_of exec elapsed invocation =
     (case exec invocation of
        Inr result0 \<Rightarrow> result0\<lparr>execution_time := elapsed invocation\<rparr>
      | Inl msg \<Rightarrow> failed_result invocation msg)"

text \<open>The invocations of a batch that are not skipped, given the agent types that are
  marked active when the batch starts: every invocation takes the mark of its type away.\<close>

fun executed :: "AgentType set \<Rightarrow> AgentInvocation list \<Rightarrow> AgentInvocation list" where
  "executed active [] = []"
| "executed active (invocation # rest) =
     (if agent_type invocation \<in> active
      then executed (active - {agent_type invocation}) rest
      else invocation # executed (active - {agent_type invocation}) rest)"

section \<open>Task decomposer\<close>

datatype TaskCategory =
    IMPLEMENTATION | DEBUGGING | TESTING | ARCHITECTURE | RESEARCH | CONFIGURATION
  | DOCUMENTATION | REFACTORING | DEPLOYMENT | SECURITY

datatype ContextType =
    TECHNICAL_PATTERNS | SIMILAR_IMPLEMENTATIONS | BEST_PRACTICES | COMMON_PITFALLS
  | CONFIGURATION_EXAMPLES | ERROR_SOLUTIONS | TESTING_STRATEGIES
  | PERFORMANCE_CONSIDERATIONS | SECURITY_PRACTICES | ARCHITECTURAL_DECISIONS

datatype Priority = CRITICAL | HIGH | MEDIUM | LOW

fun category_value :: "TaskCategory \<Rightarrow> string" where
  "category_value IMPLEMENTATION = ''implementation''"
| "category_value DEBUGGING = ''debugging''"
| "category_value TESTING = ''testing''"
| "category_value ARCHITECTURE = ''architecture''"
| "category_value RESEARCH = ''research''"
| "category_value CONFIGURATION = ''configuration''"
| "category_value DOCUMENTATION = ''documentation''"
| "category_value REFACTORING = ''refactoring''"
| "category_value DEPLOYMENT = ''deployment''"
| "category_value SECURITY = ''security''"

fun context_type_value :: "ContextType \<Rightarrow> string" where
  "context_type_value TECHNICAL_PATTERNS = ''technical_patterns''"
| "context_type_value SIMILAR_IMPLEMENTATIONS = ''similar_implementations''"
| "context_type_value BEST_PRACTICES = ''best_practices''"
| "context_type_value COMMON_PITFALLS = ''common_pitfalls''"
| "context_type_value CONFIGURATION_EXAMPLES = ''configuration_examples''"
| "context_type_value ERROR_SOLUTIONS = ''error_solutions''"
| "context_type_value TESTING_STRATEGIES = ''testing_strategies''"
| "context_type_value PERFORMANCE_CONSIDERATIONS = ''performance_considerations''"
| "context_type_value SECURITY_PRACTICES = ''security_practices''"
| "context_type_value ARCHITECTURAL_DECISIONS = ''architectural_decisions''"

fun priority_value :: "Priority \<Rightarrow> int" where
  "priority_value CRITICAL = 1"
| "priority_value HIGH = 2"
| "priority_value MEDIUM = 3"
| "priority_value LOW = 4"

text \<open>
  A set of strings is kept as the list of its elements, without repetitions. Python does
  not fix the order in which it iterates a set of strings (the order follows the hashes,
  which change from process to process), so wherever the source iterates a set, joins it
  or turns it into a list, the model applies a parameter \<open>ord\<close> of this type: \<open>ord xs\<close>
  is the elements \<open>xs\<close> in the order of the running process.
\<close>

type_synonym set_order = "string list \<Rightarrow> string list"

record TaskComponent =
  component :: string
  category :: TaskCategory
  technologies :: "string list"
  context_needs :: "(ContextType \<times> Priority) list"
  search_terms :: "string list"
  estimated_complexity :: int

record ContextQuery =
  cq_query_text :: string
  cq_context_type :: ContextType
  cq_priority :: Priority
  cq_tags :: "string list"
  similarity_threshold :: real
  max_results :: int

record TaskDecomposition =
  original_task :: string
  primary_category :: TaskCategory
  components :: "TaskComponent list"
  context_queries :: "ContextQuery list"
  technologies_involved :: "string list"
  estimated_duration :: string
  risk_factors :: "string list"
  success_criteria :: "string list"

definition walts :: "string list \<Rightarrow> regex" where
  "walts ss = Alts (map wlit ss)"

text \<open>\<open>\.ext\b\<close>: a file extension.\<close>

definition ext :: "string \<Rightarrow> regex" where
  "ext s = Cat (Lit (''.'' @ s)) WordB"

definition technology_patterns :: "(string \<times> regex list) list" where
  "technology_patterns =
     [(''python'', [wlit ''python'', wlit ''py'', ext ''py'', wlit ''pip'', wlit ''pytest'',
                    wlit ''django'', wlit ''flask'']),
      (''javascript'', [wlit ''javascript'', wlit ''js'', ext ''js'', wlit ''node'', wlit ''npm'',
                        wlit ''react'', wlit ''vue'']),
      (''typescript'', [wlit ''typescript'', wlit ''ts'', ext ''ts'', ext ''tsx'']),
      (''docker'', map wlit [''docker'', ''container'', ''dockerfile'', ''docker-compose'']),
      (''kubernetes'', map wlit [''k8s'', ''kubernetes'', ''kubectl'', ''helm'']),
      (''database'', map wlit [''database'', ''db'', ''sql'', ''postgres'', ''mysql'', ''mongo'']),
      (''api'', map wlit [''api'', ''rest'', ''graphql'', ''endpoint'', ''microservice'']),
      (''web'', map wlit [''web'', ''http'', ''https'', ''html'', ''css'', ''frontend'']),
      (''testing'', map wlit [''test'', ''testing'', ''unit test'', ''integration'', ''e2e'']),
      (''ci/cd'', map wlit [''ci'', ''cd'', ''jenkins'', ''github actions'', ''pipeline'']),
      (''cloud'', map wlit [''aws'', ''azure'', ''gcp'', ''cloud'', ''terraform'']),
      (''security'', map wlit [''security'', ''auth'', ''ssl'', ''tls'', ''oauth'', ''jwt''])]"

text \<open>The pattern table of the categories; \<open>DOCUMENTATION\<close> and \<open>DEPLOYMENT\<close> have no
  entry.\<close>

definition task_patterns :: "(TaskCategory \<times> regex list) list" where
  "task_patterns =
     [(IMPLEMENTATION, map wlit [''implement'', ''create'', ''build'', ''develop'', ''add'',
                                 ''write'', ''code'', ''feature'', ''function'', ''component'']),
      (DEBUGGING, map wlit [''debug'', ''fix'', ''error'', ''bug'', ''issue'', ''problem'',
                            ''broken'', ''failing'', ''not working'', ''troubleshoot'']),
      (TESTING, map wlit [''test'', ''testing'', ''unit test'', ''integration test'',
                          ''e2e test'', ''spec'', ''verify'', ''validate'']),
      (ARCHITECTURE, map wlit [''architecture'', ''design'', ''structure'', ''pattern'',
                               ''system'', ''module'', ''service'', ''microservice'']),
      (RESEARCH, map wlit [''research'', ''investigate'', ''explore'', ''analyze'',
                           ''compare'', ''evaluate'', ''study'', ''learn'']),
      (CONFIGURATION, map wlit [''configure'', ''config'', ''setup'', ''install'',
                                ''deployment'', ''environment'', ''settings'']),
      (REFACTORING, map wlit [''refactor'', ''clean up'', ''restructure'', ''optimize'',
                              ''improve'', ''modernize'', ''upgrade'']),
      (SECURITY, map wlit [''security'', ''secure'', ''auth'', ''permission'',
                           ''vulnerability'', ''encryption'', ''ssl'', ''tls''])]"

text \<open>\<open>context_mappings.get(category, [])\<close>.\<close>

fun context_mappings :: "TaskCategory \<Rightarrow> (ContextType \<times> Priority) list" where
  "context_mappings IMPLEMENTATION =
     [(SIMILAR_IMPLEMENTATIONS, CRITICAL), (TECHNICAL_PATTERNS, HIGH), (BEST_PRACTICES, HIGH),
      (COMMON_PITFALLS, MEDIUM), (PERFORMANCE_CONSIDERATIONS, MEDIUM)]"
| "context_mappings DEBUGGING =
     [(ERROR_SOLUTIONS, CRITICAL), (COMMON_PITFALLS, CRITICAL), (SIMILAR_IMPLEMENTATIONS, HIGH),
      (TECHNICAL_PATTERNS, MEDIUM)]"
| "context_mappings TESTING =
     [(TESTING_STRATEGIES, CRITICAL), (BEST_PRACTICES, HIGH), (SIMILAR_IMPLEMENTATIONS, HIGH),
      (COMMON_PITFALLS, MEDIUM)]"
| "context_mappings ARCHITECTURE =
     [(ARCHITECTURAL_DECISIONS, CRITICAL), (TECHNICAL_PATTERNS, CRITICAL), (BEST_PRACTICES, HIGH),
      (PERFORMANCE_CONSIDERATIONS, HIGH), (SECURITY_PRACTICES, MEDIUM)]"
| "context_mappings CONFIGURATION =
     [(CONFIGURATION_EXAMPLES, CRITICAL), (BEST_PRACTICES, HIGH), (COMMON_PITFALLS, HIGH),
      (SIMILAR_IMPLEMENTATIONS, MEDIUM)]"
| "context_mappings SECURITY =
     [(SECURITY_PRACTICES, CRITICAL), (BEST_PRACTICES, CRITICAL), (COMMON_PITFALLS, HIGH),
      (SIMILAR_IMPLEMENTATIONS, MEDIUM)]"
| "context_mappings _ = []"

text \<open>
  \<open>_categorize_task\<close>: the number of matches of each category's patterns in the
  lower-cased text; the categories with a positive score are kept in the order of the
  table, and \<open>max\<close> returns the first of those with the highest score.
\<close>

definition category_scores :: "string \<Rightarrow> (TaskCategory \<times> nat) list" where
  "category_scores text =
     filter (\<lambda>(c, score). score > 0)
       (map (\<lambda>(c, patterns).
               (c, sum_list (map (\<lambda>pattern. length (re_findall True pattern (lower text))) patterns)))
          task_patterns)"

fun first_max :: "'a \<times> nat \<Rightarrow> ('a \<times> nat) list \<Rightarrow> 'a \<times> nat" where
  "first_max best [] = best"
| "first_max best (x # xs) = first_max (if snd best < snd x then x else best) xs"

definition categorize_task :: "string \<Rightarrow> TaskCategory" where
  "categorize_task text =
     (case category_scores text of
        [] \<Rightarrow> IMPLEMENTATION
      | x # xs \<Rightarrow> fst (first_max x xs))"

definition extract_technologies :: "string \<Rightarrow> string list" where
  "extract_technologies text =
     map fst (filter (\<lambda>(tech, patterns). list_ex (\<lambda>pattern. re_search True pattern (lower text)) patterns)
                technology_patterns)"

definition complexity_triggers :: "(regex \<times> int) list" where
  "complexity_triggers =
     [(walts [''complex'', ''advanced'', ''sophisticated''], 2),
      (walts [''multiple'', ''several'', ''many''], 1),
      (walts [''integration'', ''api'', ''microservice''], 1),
      (walts [''security'', ''auth'', ''encryption''], 1),
      (walts [''performance'', ''optimiz'', ''scal''], 1),
      (walts [''database'', ''data'', ''storage''], 1),
      (walts [''test'', ''testing''], 1)]"

definition estimate_complexity :: "string \<Rightarrow> int" where
  "estimate_complexity text =
     min 5 (1 + sum_list (map snd (filter (\<lambda>(pattern, weight). re_search True pattern text)
                                      complexity_triggers)))"

text \<open>
  \<open>_identify_components\<close> builds every component with
  \<open>search_terms=self._generate_search_terms(...)\<close>. The class defines no method of that
  name, so the attribute lookup raises \<open>AttributeError\<close>. The model takes the method as
  a parameter \<open>gst\<close>: \<open>None\<close> is the class as the source has it, \<open>Some f\<close> a class
  completed with an implementation \<open>f\<close> that returns.
\<close>

definition make_component ::
    "(string \<Rightarrow> string list \<Rightarrow> string list) option \<Rightarrow> string \<Rightarrow> string \<Rightarrow> TaskCategory
       \<Rightarrow> string list \<Rightarrow> error + TaskComponent" where
  "make_component gst name text cat techs =
     (case gst of
        None \<Rightarrow> Inl (AttributeError ''_generate_search_terms'')
      | Some f \<Rightarrow>
          Inr \<lparr>component = name, category = cat, technologies = techs,
               context_needs = context_mappings cat, search_terms = f text techs,
               estimated_complexity = estimate_complexity text\<rparr>)"

fun sub_components ::
    "(string \<Rightarrow> string list \<Rightarrow> string list) option \<Rightarrow> string list \<Rightarrow> error + TaskComponent list" where
  "sub_components gst [] = Inr []"
| "sub_components gst (part # parts) =
     (if int (length (strip part)) > 10
      then (case make_component gst (strip part) part (categorize_task part) (extract_technologies part) of
              Inl e \<Rightarrow> Inl e
            | Inr c \<Rightarrow> (case sub_components gst parts of Inl e \<Rightarrow> Inl e | Inr cs \<Rightarrow> Inr (c # cs)))
      else sub_components gst parts)"

definition identify_components ::
    "(string \<Rightarrow> string list \<Rightarrow> string list) option \<Rightarrow> string \<Rightarrow> TaskCategory \<Rightarrow> string list
       \<Rightarrow> error + TaskComponent list" where
  "identify_components gst text cat techs =
     (case make_component gst text text cat techs of
        Inl e \<Rightarrow> Inl e
      | Inr main_component \<Rightarrow>
          if contains_str ''and'' (lower text)
          then (case sub_components gst (tl (re_split True (wlit ''and'') text)) of
                  Inl e \<Rightarrow> Inl e
                | Inr subs \<Rightarrow> Inr (main_component # subs))
          else Inr [main_component])"

definition common_words :: "string list" where
  "common_words =
     [''the'', ''a'', ''an'', ''and'', ''or'', ''but'', ''in'', ''on'', ''at'', ''to'', ''for'', ''of'',
      ''with'', ''by'', ''is'', ''are'', ''was'', ''were'', ''be'', ''been'', ''have'', ''has'', ''had'',
      ''do'', ''does'', ''did'', ''will'', ''would'', ''could'', ''should'']"

definition extract_key_terms :: "string \<Rightarrow> string" where
  "extract_key_terms text =
     (let ws = re_findall False (Cat WordB (Cat WordC (Cat (Star WordC) WordB))) (lower text);
          key_terms = filter (\<lambda>w. \<not> List.member common_words w \<and> length w > 2) ws
      in join '' '' (take 10 key_terms))"

fun context_modifier :: "ContextType \<Rightarrow> string" where
  "context_modifier SIMILAR_IMPLEMENTATIONS = ''implementation example pattern''"
| "context_modifier BEST_PRACTICES = ''best practice recommendation guideline''"
| "context_modifier COMMON_PITFALLS = ''problem pitfall mistake avoid''"
| "context_modifier ERROR_SOLUTIONS = ''error fix solution resolved''"
| "context_modifier TESTING_STRATEGIES = ''test testing strategy approach''"
| "context_modifier CONFIGURATION_EXAMPLES = ''configuration config setup example''"
| "context_modifier TECHNICAL_PATTERNS = ''pattern architecture design approach''"
| "context_modifier PERFORMANCE_CONSIDERATIONS = ''performance optimization scalability''"
| "context_modifier SECURITY_PRACTICES = ''security secure authentication authorization''"
| "context_modifier ARCHITECTURAL_DECISIONS = ''architecture decision design choice''"

definition build_query_text :: "set_order \<Rightarrow> string \<Rightarrow> ContextType \<Rightarrow> string list \<Rightarrow> string" where
  "build_query_text ord text ct techs =
     strip (extract_key_terms text @ '' '' @ join '' '' (ord techs) @ '' '' @ context_modifier ct)"

definition generate_tags :: "set_order \<Rightarrow> string list \<Rightarrow> TaskCategory \<Rightarrow> ContextType \<Rightarrow> string list" where
  "generate_tags ord techs cat ct =
     ord techs @ [category_value cat,
              map (\<lambda>c. if c = CHR ''_'' then CHR ''-'' else c) (context_type_value ct)]"

fun get_threshold_for_priority :: "Priority \<Rightarrow> real" where
  "get_threshold_for_priority CRITICAL = 0.3"
| "get_threshold_for_priority HIGH = 0.4"
| "get_threshold_for_priority MEDIUM = 0.5"
| "get_threshold_for_priority LOW = 0.6"

fun get_max_results_for_priority :: "Priority \<Rightarrow> int" where
  "get_max_results_for_priority CRITICAL = 15"
| "get_max_results_for_priority HIGH = 10"
| "get_max_results_for_priority MEDIUM = 8"
| "get_max_results_for_priority LOW = 5"

definition generate_context_queries ::
    "set_order \<Rightarrow> string \<Rightarrow> TaskCategory \<Rightarrow> string list \<Rightarrow> TaskComponent list
       \<Rightarrow> ContextQuery list" where
  "generate_context_queries ord text cat techs comps =
     sort_key (\<lambda>q. priority_value (cq_priority q))
       (map (\<lambda>(ct, pr).
               \<lparr>cq_query_text = build_query_text ord text ct techs,
                cq_context_type = ct,
                cq_priority = pr,
                cq_tags = generate_tags ord techs cat ct,
                similarity_threshold = get_threshold_for_priority pr,
                max_results = get_max_results_for_priority pr\<rparr>)
          (context_mappings cat))"

definition estimate_duration :: "TaskComponent list \<Rightarrow> string" where
  "estimate_duration comps =
     (let total_complexity = sum_list (map estimated_complexity comps)
      in if total_complexity \<le> 3 then ''1-2 hours''
         else if total_complexity \<le> 6 then ''2-4 hours''
         else if total_complexity \<le> 10 then ''4-8 hours''
         else if total_complexity \<le> 15 then ''1-2 days''
         else ''2+ days'')"

definition risk_patterns :: "(regex \<times> string) list" where
  "risk_patterns =
     [(walts [''new'', ''unfamiliar'', ''first time''], ''Working with unfamiliar technology''),
      (walts [''legacy'', ''old'', ''deprecated''], ''Working with legacy systems''),
      (walts [''migration'', ''upgrade''], ''Migration/upgrade complexity''),
      (Alts [wlit ''integration'',
             Cat WordB (Cat (Lit ''third'') (Cat (Opt Dot) (Cat (Lit ''party'') WordB)))],
       ''Third-party integration challenges''),
      (walts [''performance'', ''scale''], ''Performance and scalability requirements''),
      (walts [''security'', ''auth''], ''Security implementation complexity''),
      (walts [''deadline'', ''urgent'', ''asap''], ''Time pressure''),
      (Cat (wlit ''multiple'') (Cat (Star Dot) (wlit ''team'')), ''Multi-team coordination required'')]"

definition identify_risk_factors :: "string \<Rightarrow> TaskComponent list \<Rightarrow> string list" where
  "identify_risk_factors text comps =
     (let risks =
            map snd (filter (\<lambda>(pattern, risk). re_search True pattern (lower text)) risk_patterns) @
            (if filter (\<lambda>c. estimated_complexity c \<ge> 4) comps = [] then []
             else [''High complexity components present'']) @
            (if length comps > 3 then [''Multiple interdependent components''] else [])
      in if risks = [] then [''Low risk task''] else risks)"

text \<open>
  The criteria of the components. The last branch of the chain compares the category
  with \<open>TaskCategory.PERFORMANCE\<close>; the enumeration has no such member, so evaluating
  the comparison raises \<open>AttributeError\<close>. It is evaluated for every component whose
  category is none of \<open>TESTING\<close>, \<open>DEBUGGING\<close> and \<open>SECURITY\<close>.
\<close>

fun component_criteria :: "TaskComponent list \<Rightarrow> error + string list" where
  "component_criteria [] = Inr []"
| "component_criteria (c # cs) =
     (if category c = TESTING
      then map_sum id (\<lambda>r. ''All tests pass with good coverage'' # r) (component_criteria cs)
      else if category c = DEBUGGING
      then map_sum id (\<lambda>r. ''Original issue resolved and verified'' # r) (component_criteria cs)
      else if category c = SECURITY
      then map_sum id (\<lambda>r. ''Security requirements met and verified'' # r) (component_criteria cs)
      else Inl (AttributeError ''PERFORMANCE''))"

definition technology_criteria :: "set_order \<Rightarrow> TaskComponent list \<Rightarrow> string list" where
  "technology_criteria ord comps =
     concat (map (\<lambda>tech. if tech = ''testing'' then [''Test suite runs successfully'']
                          else if tech = ''database'' then [''Database operations work correctly'']
                          else if tech = ''api'' then [''API endpoints respond correctly'']
                          else [])
               (ord (remdups (concat (map technologies comps)))))"

text \<open>\<open>list(set(criteria))\<close>: the criteria without repetitions, in the order of the
  set.\<close>

definition generate_success_criteria ::
    "set_order \<Rightarrow> string \<Rightarrow> TaskComponent list \<Rightarrow> error + string list" where
  "generate_success_criteria ord text comps =
     (case component_criteria comps of
        Inl e \<Rightarrow> Inl e
      | Inr cc \<Rightarrow>
          Inr (ord (remdups
            ([''Task implementation completed successfully''] @ cc @ technology_criteria ord comps @
             [''Code follows project conventions and standards'',
              ''Documentation updated as needed'',
              ''No regressions in existing functionality'']))))"

text \<open>\<open>decompose_task\<close>; its argument \<open>metadata\<close> is not used by the source.\<close>

definition decompose_task ::
    "set_order \<Rightarrow> (string \<Rightarrow> string list \<Rightarrow> string list) option \<Rightarrow> string
       \<Rightarrow> error + TaskDecomposition" where
  "decompose_task ord gst text =
     (let primary = categorize_task text;
          techs = extract_technologies text
      in case identify_components gst text primary techs of
           Inl e \<Rightarrow> Inl e
         | Inr comps \<Rightarrow>
             (let queries = generate_context_queries ord text primary techs comps;
                  duration = estimate_duration comps;
                  risks = identify_risk_factors text comps
              in case generate_success_criteria ord text comps of
                   Inl e \<Rightarrow> Inl e
                 | Inr criteria \<Rightarrow>
                     Inr \<lparr>original_task = text, primary_category = primary, components = comps,
                          context_queries = queries, technologies_involved = techs,
                          estimated_duration = duration, risk_factors = risks,
                          success_criteria = criteria\<rparr>))"

section \<open>Context builder\<close>

text \<open>The section types; those that share a name with a context type carry the prefix
  \<open>S_\<close> here.\<close>

datatype ContextSectionType =
    S_OVERVIEW | S_SIMILAR_IMPLEMENTATIONS | S_BEST_PRACTICES | S_COMMON_PITFALLS
  | S_TECHNICAL_PATTERNS | S_ERROR_SOLUTIONS | S_TESTING_STRATEGIES
  | S_CONFIGURATION_EXAMPLES | S_PERFORMANCE_CONSIDERATIONS | S_SECURITY_PRACTICES
  | S_ARCHITECTURAL_DECISIONS | S_RECENT_RELATED_WORK

record ContextItem =
  item_content :: string
  source_hash :: string
  relevance_score :: real
  item_context_type :: ContextType
  item_tags :: "string list"
  item_timestamp :: int
  memory_metadata :: "(string \<times> pyval) list"

record ContextSection =
  section_type :: ContextSectionType
  title :: string
  items :: "ContextItem list"
  section_priority :: Priority
  summary :: "string option"

record DecompositionSummary =
  ds_category :: string
  ds_technologies :: "string list"
  ds_components_count :: nat
  ds_estimated_duration :: string
  ds_risk_factors :: "string list"

record AssemblyMetadata =
  assembly_time_ms :: real
  total_memory_results :: nat
  sections_created :: nat
  highest_relevance :: real
  technologies_covered :: "string list"
  context_types_found :: "string list"

record AssembledContext =
  task_description :: string
  decomposition_summary :: DecompositionSummary
  sections :: "ContextSection list"
  total_items :: nat
  assembly_metadata :: AssemblyMetadata
  created_at :: int
  estimated_relevance :: real

text \<open>
  A raw search result is a dictionary; the model keeps the keys that the builder reads,
  each of them optional. A score is a value that \<open>float()\<close> converts, or one on which it
  raises.
\<close>

datatype pynum = PNum real | PNotNum

record RawResult =
  r_content :: "string option"
  r_metadata :: "(string \<times> pyval) list option"
  r_tags :: "string list option"
  r_timestamp :: "string option"
  r_created_at :: "string option"
  r_score :: "pynum option"
  r_similarity :: "pynum option"
  r_hash :: "string option"
  r_id :: "string option"

fun context_type_mappings :: "ContextType \<Rightarrow> ContextSectionType option" where
  "context_type_mappings SIMILAR_IMPLEMENTATIONS = Some S_SIMILAR_IMPLEMENTATIONS"
| "context_type_mappings BEST_PRACTICES = Some S_BEST_PRACTICES"
| "context_type_mappings COMMON_PITFALLS = Some S_COMMON_PITFALLS"
| "context_type_mappings TECHNICAL_PATTERNS = Some S_TECHNICAL_PATTERNS"
| "context_type_mappings ERROR_SOLUTIONS = Some S_ERROR_SOLUTIONS"
| "context_type_mappings TESTING_STRATEGIES = Some S_TESTING_STRATEGIES"
| "context_type_mappings CONFIGURATION_EXAMPLES = Some S_CONFIGURATION_EXAMPLES"
| "context_type_mappings PERFORMANCE_CONSIDERATIONS = Some S_PERFORMANCE_CONSIDERATIONS"
| "context_type_mappings SECURITY_PRACTICES = Some S_SECURITY_PRACTICES"
| "context_type_mappings ARCHITECTURAL_DECISIONS = Some S_ARCHITECTURAL_DECISIONS"

text \<open>\<open>section_priorities.get(section_type, Priority.MEDIUM)\<close>.\<close>

fun section_priorities :: "ContextSectionType \<Rightarrow> Priority" where
  "section_priorities S_OVERVIEW = CRITICAL"
| "section_priorities S_SIMILAR_IMPLEMENTATIONS = CRITICAL"
| "section_priorities S_BEST_PRACTICES = HIGH"
| "section_priorities S_TECHNICAL_PATTERNS = HIGH"
| "section_priorities S_COMMON_PITFALLS = HIGH"
| "section_priorities S_ERROR_SOLUTIONS = HIGH"
| "section_priorities S_TESTING_STRATEGIES = MEDIUM"
| "section_priorities S_CONFIGURATION_EXAMPLES = MEDIUM"
| "section_priorities S_PERFORMANCE_CONSIDERATIONS = MEDIUM"
| "section_priorities S_SECURITY_PRACTICES = MEDIUM"
| "section_priorities S_ARCHITECTURAL_DECISIONS = MEDIUM"
| "section_priorities S_RECENT_RELATED_WORK = LOW"

text \<open>The titles; in the source each starts with a pictograph and a space, left out
  here.\<close>

fun section_titles :: "ContextSectionType \<Rightarrow> string" where
  "section_titles S_SIMILAR_IMPLEMENTATIONS = ''Similar Implementations''"
| "section_titles S_BEST_PRACTICES = ''Best Practices''"
| "section_titles S_COMMON_PITFALLS = ''Common Pitfalls to Avoid''"
| "section_titles S_TECHNICAL_PATTERNS = ''Technical Patterns''"
| "section_titles S_ERROR_SOLUTIONS = ''Error Solutions''"
| "section_titles S_TESTING_STRATEGIES = ''Testing Strategies''"
| "section_titles S_CONFIGURATION_EXAMPLES = ''Configuration Examples''"
| "section_titles S_PERFORMANCE_CONSIDERATIONS = ''Performance Considerations''"
| "section_titles S_SECURITY_PRACTICES = ''Security Practices''"
| "section_titles S_ARCHITECTURAL_DECISIONS = ''Architectural Decisions''"
| "section_titles S_OVERVIEW = ''Overview''"
| "section_titles S_RECENT_RELATED_WORK = ''Recent Related Work''"

fun get_max_items_for_section :: "ContextSectionType \<Rightarrow> nat" where
  "get_max_items_for_section S_SIMILAR_IMPLEMENTATIONS = 8"
| "get_max_items_for_section S_BEST_PRACTICES = 6"
| "get_max_items_for_section S_COMMON_PITFALLS = 5"
| "get_max_items_for_section S_TECHNICAL_PATTERNS = 6"
| "get_max_items_for_section S_ERROR_SOLUTIONS = 8"
| "get_max_items_for_section S_TESTING_STRATEGIES = 5"
| "get_max_items_for_section S_CONFIGURATION_EXAMPLES = 4"
| "get_max_items_for_section S_PERFORMANCE_CONSIDERATIONS = 4"
| "get_max_items_for_section S_SECURITY_PRACTICES = 4"
| "get_max_items_for_section S_ARCHITECTURAL_DECISIONS = 5"
| "get_max_items_for_section _ = 5"

text \<open>
  \<open>int(s)\<close> on a string without underscores: white space around an optional sign and
  decimal digits; \<open>None\<close> stands for \<open>ValueError\<close>. The white space that \<open>int\<close>
  passes over is that of \<open>str.strip()\<close> without the separators \<open>0x1c..0x1f\<close>.
\<close>

definition is_int_space :: "char \<Rightarrow> bool" where
  "is_int_space c = (let n = (of_char c :: nat) in
     (9 \<le> n \<and> n \<le> 13) \<or> n = 32 \<or> n = 133 \<or> n = 160)"

definition is_digit :: "char \<Rightarrow> bool" where
  "is_digit c = (let n = (of_char c :: nat) in 48 \<le> n \<and> n \<le> 57)"

definition digits_value :: "string \<Rightarrow> nat" where
  "digits_value ds = foldl (\<lambda>n c. 10 * n + (of_char c - 48)) 0 ds"

definition py_int :: "string \<Rightarrow> int option" where
  "py_int s =
     (let t = rev (dropWhile is_int_space (rev (dropWhile is_int_space s)));
          (sign, ds) = (case t of
                          [] \<Rightarrow> (1, [])
                        | c # r \<Rightarrow> if c = CHR ''-'' then (- 1, r)
                                   else if c = CHR ''+'' then (1, r) else (1, t))
      in if ds = [] then None
         else if list_all is_digit ds then Some (sign * int (digits_value ds))
         else None)"

text \<open>\<open>query_id.split("_")[-1]\<close>: the text after the last underscore.\<close>

definition last_segment :: "string \<Rightarrow> string" where
  "last_segment s = rev (takeWhile (\<lambda>c. c \<noteq> CHR ''_'') (rev s))"

definition find_context_query :: "string \<Rightarrow> ContextQuery list \<Rightarrow> ContextQuery option" where
  "find_context_query query_id queries =
     (let fallback = (case queries of [] \<Rightarrow> None | q # _ \<Rightarrow> Some q);
          query_index = (if List.member query_id (CHR ''_'') then py_int (last_segment query_id)
                         else py_int query_id)
      in case query_index of
           None \<Rightarrow> fallback
         | Some i \<Rightarrow> if 0 \<le> i \<and> i < int (length queries) then Some (queries ! nat i) else fallback)"

text \<open>
  \<open>_parse_timestamp\<close>. The three calls of \<open>datetime.strptime\<close> are a parameter:
  \<open>strptime t\<close> is the time that the first matching format yields for \<open>t\<close>, if one
  matches.
\<close>

definition parse_timestamp :: "(string \<Rightarrow> int option) \<Rightarrow> int \<Rightarrow> string \<Rightarrow> int" where
  "parse_timestamp strptime now timestamp_str =
     (if timestamp_str = [] then now
      else (case strptime (take 19 timestamp_str) of Some t \<Rightarrow> t | None \<Rightarrow> now))"

text \<open>One raw result as a context item; \<open>None\<close> when the \<open>try\<close> block raises (the
  conversion of the score by \<open>float()\<close>) and the result is passed over.\<close>

definition parse_result ::
    "(string \<Rightarrow> int option) \<Rightarrow> int \<Rightarrow> ContextQuery \<Rightarrow> RawResult \<Rightarrow> ContextItem option" where
  "parse_result strptime now context_query result =
     (let timestamp_str =
            (case r_timestamp result of
               Some t \<Rightarrow> t
             | None \<Rightarrow> (case r_created_at result of Some t \<Rightarrow> t | None \<Rightarrow> []));
          score =
            (case r_score result of
               Some v \<Rightarrow> v
             | None \<Rightarrow> (case r_similarity result of Some v \<Rightarrow> v | None \<Rightarrow> PNum 0.5))
      in case score of
           PNotNum \<Rightarrow> None
         | PNum x \<Rightarrow>
             Some \<lparr>item_content = (case r_content result of Some c \<Rightarrow> c | None \<Rightarrow> []),
                   source_hash = (case r_hash result of
                                    Some h \<Rightarrow> h
                                  | None \<Rightarrow> (case r_id result of Some h \<Rightarrow> h | None \<Rightarrow> [])),
                   relevance_score = x,
                   item_context_type = cq_context_type context_query,
                   item_tags = (case r_tags result of Some ts \<Rightarrow> ts | None \<Rightarrow> []),
                   item_timestamp = parse_timestamp strptime now timestamp_str,
                   memory_metadata = (case r_metadata result of Some m \<Rightarrow> m | None \<Rightarrow> [])\<rparr>)"

text \<open>Sorting by decreasing relevance, stable as \<open>sort(reverse=True)\<close> is.\<close>

definition sort_by_relevance :: "ContextItem list \<Rightarrow> ContextItem list" where
  "sort_by_relevance its = sort_key (\<lambda>i. - relevance_score i) its"

text \<open>\<open>memory_results\<close> is a dictionary that the builder iterates: the list of its
  entries.\<close>

definition parse_memory_results ::
    "(string \<Rightarrow> int option) \<Rightarrow> int \<Rightarrow> (string \<times> RawResult list) list \<Rightarrow> TaskDecomposition
       \<Rightarrow> ContextItem list" where
  "parse_memory_results strptime now memory_results decomposition =
     sort_by_relevance
       (concat (map (\<lambda>(query_id, results).
                       case find_context_query query_id (context_queries decomposition) of
                         None \<Rightarrow> []
                       | Some context_query \<Rightarrow>
                           List.map_filter (parse_result strptime now context_query) results)
                  memory_results))"

text \<open>A dictionary of lists in insertion order: appending to the list of a key.\<close>

fun group_add :: "('k \<times> 'v list) list \<Rightarrow> 'k \<Rightarrow> 'v \<Rightarrow> ('k \<times> 'v list) list" where
  "group_add [] k v = [(k, [v])]"
| "group_add ((k', vs) # rest) k v =
     (if k' = k then (k', vs @ [v]) # rest else (k', vs) # group_add rest k v)"

definition group_items_by_section :: "ContextItem list \<Rightarrow> (ContextSectionType \<times> ContextItem list) list" where
  "group_items_by_section its =
     foldl (\<lambda>sections_data item.
              case context_type_mappings (item_context_type item) of
                None \<Rightarrow> sections_data
              | Some st \<Rightarrow> group_add sections_data st item)
       [] its"

text \<open>Decimal digits of a natural number, for the counts in the summaries.\<close>

function str_nat :: "nat \<Rightarrow> string" where
  "str_nat n = (if n < 10 then [char_of (48 + n)] else str_nat (n div 10) @ [char_of (48 + n mod 10)])"
  by pat_completeness auto
termination
  by (relation "measure id") auto

text \<open>The keys of a counting dictionary, in the order of their first occurrence.\<close>

definition first_occurrences :: "'a list \<Rightarrow> 'a list" where
  "first_occurrences xs = rev (remdups (rev xs))"

definition generate_section_summary :: "ContextSectionType \<Rightarrow> ContextItem list \<Rightarrow> string option" where
  "generate_section_summary st its =
     (if its = [] then None
      else
        (let all_tags = concat (map item_tags its);
             high_relevance_items = filter (\<lambda>i. relevance_score i > 0.6) its;
             common_tags = take 3 (sort_key (\<lambda>t. - int (count_list all_tags t))
                                     (first_occurrences all_tags));
             n = str_nat (length its);
             h = str_nat (length high_relevance_items)
         in Some
              (if st = S_SIMILAR_IMPLEMENTATIONS
               then ''Found '' @ n @ '' similar implementations, focusing on '' @ join '', '' common_tags
               else if st = S_BEST_PRACTICES
               then n @ '' best practices identified, with '' @ h @ '' highly relevant recommendations''
               else if st = S_COMMON_PITFALLS
               then n @ '' potential pitfalls to avoid, particularly around '' @
                    join '', '' (take 2 common_tags)
               else if st = S_ERROR_SOLUTIONS
               then n @ '' error solutions found with '' @ h @ '' highly relevant fixes''
               else if st = S_TESTING_STRATEGIES
               then n @ '' testing approaches covering '' @ join '', '' (take 2 common_tags)
               else n @ '' relevant items found'')))"

definition create_context_sections ::
    "(ContextSectionType \<times> ContextItem list) list \<Rightarrow> TaskDecomposition \<Rightarrow> ContextSection list" where
  "create_context_sections sections_data decomposition =
     concat (map (\<lambda>(st, its).
                    if its = [] then []
                    else
                      (let limited_items = take (get_max_items_for_section st) (sort_by_relevance its)
                       in [\<lparr>section_type = st,
                            title = section_titles st,
                            items = limited_items,
                            section_priority = section_priorities st,
                            summary = generate_section_summary st limited_items\<rparr>]))
               sections_data)"

fun context_type_title :: "ContextType \<Rightarrow> string" where
  "context_type_title TECHNICAL_PATTERNS = ''Technical Patterns''"
| "context_type_title SIMILAR_IMPLEMENTATIONS = ''Similar Implementations''"
| "context_type_title BEST_PRACTICES = ''Best Practices''"
| "context_type_title COMMON_PITFALLS = ''Common Pitfalls''"
| "context_type_title CONFIGURATION_EXAMPLES = ''Configuration Examples''"
| "context_type_title ERROR_SOLUTIONS = ''Error Solutions''"
| "context_type_title TESTING_STRATEGIES = ''Testing Strategies''"
| "context_type_title PERFORMANCE_CONSIDERATIONS = ''Performance Considerations''"
| "context_type_title SECURITY_PRACTICES = ''Security Practices''"
| "context_type_title ARCHITECTURAL_DECISIONS = ''Architectural Decisions''"

definition generate_coverage_summary :: "ContextItem list \<Rightarrow> string" where
  "generate_coverage_summary its =
     (let names = map (\<lambda>i. context_type_title (item_context_type i)) its;
          counted = sort_key (\<lambda>name. - int (count_list names name)) (first_occurrences names);
          coverage_lines = map (\<lambda>name. ''- '' @ name @ '': '' @ str_nat (count_list names name) @ '' items'')
                             counted
      in join nl (take 6 coverage_lines))"

text \<open>The overview section, built whatever the items are. \<open>fmt\<close> is the float format
  \<open>:.2f\<close>, as in the scorer.\<close>

definition create_overview_section ::
    "set_order \<Rightarrow> (real \<Rightarrow> string) \<Rightarrow> int \<Rightarrow> ContextItem list \<Rightarrow> TaskDecomposition
       \<Rightarrow> ContextSection" where
  "create_overview_section ord fmt now its decomposition =
     (let avg_relevance = sum_list (map relevance_score its) / real (max (length its) 1);
          techs = technologies_involved decomposition;
          overview_content = strip
            (nl @ ''# Context Overview'' @ nl @ nl @
             ''**Task**: '' @ original_task decomposition @ nl @ nl @
             ''**Summary**: Found '' @ str_nat (length its) @
               '' relevant memories with average relevance of '' @ fmt avg_relevance @ nl @ nl @
             ''**Technologies Involved**: '' @
               (if techs = [] then ''General development'' else join '', '' (ord techs)) @ nl @ nl @
             ''**Task Complexity**: '' @ estimated_duration decomposition @ nl @ nl @
             ''**Key Areas Covered**:'' @ nl @ generate_coverage_summary its @ nl @ nl @
             ''**Risk Factors**: '' @ join '', '' (risk_factors decomposition) @ nl @ ''        '');
          overview_item =
            \<lparr>item_content = overview_content,
             source_hash = ''overview_generated'',
             relevance_score = 1.0,
             item_context_type = TECHNICAL_PATTERNS,
             item_tags = ord techs @ [category_value (primary_category decomposition)],
             item_timestamp = now,
             memory_metadata = [(''generated'', PBool True), (''type'', PStr ''overview'')]\<rparr>
      in \<lparr>section_type = S_OVERVIEW,
          title = ''Task Context Overview'',
          items = [overview_item],
          section_priority = CRITICAL,
          summary = Some ''Generated overview of available context''\<rparr>)"

text \<open>\<open>_add_special_sections\<close>: the overview goes to the front; a section of the items of
  the last 30 days, if there are any, goes to the end.\<close>

definition add_special_sections ::
    "set_order \<Rightarrow> (real \<Rightarrow> string) \<Rightarrow> int \<Rightarrow> ContextSection list \<Rightarrow> ContextItem list
       \<Rightarrow> TaskDecomposition \<Rightarrow> ContextSection list" where
  "add_special_sections ord fmt now secs its decomposition =
     (let overview_section = create_overview_section ord fmt now its decomposition;
          recent_items = filter (\<lambda>i. item_timestamp i > now - 30 * 86400000000) its
      in overview_section # secs @
         (if recent_items = [] then []
          else [\<lparr>section_type = S_RECENT_RELATED_WORK,
                  title = ''Recent Related Work'',
                  items = take 5 recent_items,
                  section_priority = LOW,
                  summary = Some (''Recent work from the last 30 days ('' @
                                  str_nat (length recent_items) @ '' items found)'')\<rparr>]))"

definition calculate_overall_relevance :: "ContextItem list \<Rightarrow> real" where
  "calculate_overall_relevance its =
     (if its = [] then 0.0
      else
        (let weighted_scores =
               map (\<lambda>(i, item). relevance_score item * max 0.1 (1.0 - real i * 0.05))
                 (enumerate 0 (take 20 its))
         in if weighted_scores = [] then 0.0
            else sum_list weighted_scores / real (length weighted_scores)))"

text \<open>
  \<open>assemble_context\<close>. The clock is read once (\<open>now\<close>); \<open>elapsed_ms\<close> is the assembly
  time that the two readings of the source measure.
\<close>

definition assemble_context ::
    "set_order \<Rightarrow> (string \<Rightarrow> int option) \<Rightarrow> (real \<Rightarrow> string) \<Rightarrow> int \<Rightarrow> real
       \<Rightarrow> TaskDecomposition \<Rightarrow> (string \<times> RawResult list) list \<Rightarrow> AssembledContext" where
  "assemble_context ord strptime fmt now elapsed_ms decomposition memory_results =
     (let context_items = parse_memory_results strptime now memory_results decomposition;
          sections_data = group_items_by_section context_items;
          secs0 = create_context_sections sections_data decomposition;
          secs1 = add_special_sections ord fmt now secs0 context_items decomposition;
          secs = sort_key (\<lambda>s. priority_value (section_priority s)) secs1;
          overall_relevance = calculate_overall_relevance context_items
      in \<lparr>task_description = original_task decomposition,
          decomposition_summary =
            \<lparr>ds_category = category_value (primary_category decomposition),
             ds_technologies = ord (technologies_involved decomposition),
             ds_components_count = length (components decomposition),
             ds_estimated_duration = estimated_duration decomposition,
             ds_risk_factors = risk_factors decomposition\<rparr>,
          sections = secs,
          total_items = length context_items,
          assembly_metadata =
            \<lparr>assembly_time_ms = elapsed_ms,
             total_memory_results = sum_list (map (\<lambda>(query_id, results). length results) memory_results),
             sections_created = length secs,
             highest_relevance = (case map relevance_score context_items of
                                    [] \<Rightarrow> 0 | x # xs \<Rightarrow> foldl max x xs),
             technologies_covered = ord (technologies_involved decomposition),
             context_types_found =
               ord (remdups (map (\<lambda>i. context_type_value (item_context_type i)) context_items))\<rparr>,
          created_at = now,
          estimated_relevance = overall_relevance\<rparr>)"

section \<open>Inputs for the concrete instances\<close>

definition day :: int where
  "day = 86400000000"

definition blank_candidate :: MemoryCandidate where
  "blank_candidate =
     \<lparr>content = [], tags = [], metadata = Map.empty, timestamp = None, content_hash = [],
      base_similarity_score = 0, usage_count = 0\<rparr>"

definition blank_context :: ScoringContext where
  "blank_context =
     \<lparr>query_text = [], query_tags = [], target_technologies = [], task_category = [],
      content_type_preference = None, temporal_preference = None,
      metadata_requirements = [], contextual_factors = Map.empty\<rparr>"

definition store_invocation :: AgentInvocation where
  "store_invocation =
     \<lparr>agent_type = MEMORY_STORE, trigger = DECISION_MADE, inv_context = [],
      inv_priority = 1, dependencies = None\<rparr>"

definition debug_invocation :: AgentInvocation where
  "debug_invocation =
     \<lparr>agent_type = DEBUG_CONTEXT, trigger = ERROR_ENCOUNTERED, inv_context = [],
      inv_priority = 1, dependencies = None\<rparr>"

text \<open>An agent that fails on debugging requests and is the canned one otherwise.\<close>

definition failing_debug_agent :: "AgentInvocation \<Rightarrow> string + AgentResult" where
  "failing_debug_agent invocation =
     (if agent_type invocation = DEBUG_CONTEXT then Inl ''agent unavailable''
      else Inr (execute_single_agent (\<lambda>v. []) invocation))"

text \<open>A float format for the concrete instances; the properties do not depend on it.\<close>

definition no_format :: "real \<Rightarrow> string" where
  "no_format x = []"

definition scenario_A :: string where
  "scenario_A = ''We decided to use PostgreSQL instead of MongoDB for ACID transactions''"

text \<open>An order of set iteration (that of the list), a decomposition, a result dictionary
  and a date parser that recognises nothing.\<close>

definition table_order :: set_order where
  "table_order xs = xs"

definition sample_decomposition :: TaskDecomposition where
  "sample_decomposition =
     \<lparr>original_task = ''fix the login test'', primary_category = TESTING, components = [],
      context_queries = generate_context_queries table_order ''fix the login test'' TESTING [] [],
      technologies_involved = [], estimated_duration = ''1-2 hours'',
      risk_factors = [''Low risk task''], success_criteria = []\<rparr>"

definition sample_results :: "(string \<times> RawResult list) list" where
  "sample_results =
     [(''query_0'',
       [\<lparr>r_content = Some ''mock the session store'', r_metadata = None, r_tags = Some [''testing''],
         r_timestamp = None, r_created_at = None, r_score = Some (PNum 0.8),
         r_similarity = None, r_hash = Some ''abc123'', r_id = None\<rparr>])]"

definition no_strptime :: "string \<Rightarrow> int option" where
  "no_strptime s = None"

section \<open>Properties of the relevance scorer\<close>

subsection \<open>Tag overlap\<close>

text \<open>
  C5: for a query tag list and a candidate tag list, the tag-overlap score is exactly 0
  when either list is empty or the lower-cased tag sets are disjoint, and exactly 1 when
  both lists are non-empty and the lower-cased tag sets are equal. The tag sets are the
  ones the function builds with \<open>str.lower()\<close>; the last instance below has an accented
  capital against its small letter.
\<close>

theorem tag_overlap_disjoint_or_equal:
  "(query_tags ctx = [] \<or> tags c = [] \<or>
      set (map lower (query_tags ctx)) \<inter> set (map lower (tags c)) = {}
      \<longrightarrow> calculate_tag_overlap c ctx = 0) \<and>
   (query_tags ctx \<noteq> [] \<and> tags c \<noteq> [] \<and>
      set (map lower (query_tags ctx)) = set (map lower (tags c))
      \<longrightarrow> calculate_tag_overlap c ctx = 1)"
proof (intro conjI impI)
  assume "query_tags ctx = [] \<or> tags c = [] \<or>
    set (map lower (query_tags ctx)) \<inter> set (map lower (tags c)) = {}"
  then show "calculate_tag_overlap c ctx = 0"
    by (auto simp: calculate_tag_overlap_def Let_def)
next
  assume h: "query_tags ctx \<noteq> [] \<and> tags c \<noteq> [] \<and>
    set (map lower (query_tags ctx)) = set (map lower (tags c))"
  let ?S = "set (map lower (tags c))"
  from h have ne: "?S \<noteq> {}" by simp
  have "finite ?S" by simp
  with ne have "card ?S > 0" by (simp add: card_gt_0_iff)
  with h ne show "calculate_tag_overlap c ctx = 1"
    by (simp add: calculate_tag_overlap_def Let_def)
qed

theorem tag_overlap_disjoint_or_equal_witness:
  "calculate_tag_overlap (blank_candidate\<lparr>tags := [''python'']\<rparr>)
     (blank_context\<lparr>query_tags := [''Docker'']\<rparr>) = 0 \<and>
   calculate_tag_overlap (blank_candidate\<lparr>tags := [''Python'', ''api'']\<rparr>)
     (blank_context\<lparr>query_tags := [''API'', ''python'', ''PYTHON'']\<rparr>) = 1 \<and>
   calculate_tag_overlap (blank_candidate\<lparr>tags := [[CHR 0xC4]]\<rparr>)
     (blank_context\<lparr>query_tags := [[CHR 0xE4]]\<rparr>) = 1"
proof -
  have d: "set (map lower [''Docker'']) \<inter> set (map lower [''python'']) = {}"
    by code_simp
  have e: "set (map lower [''API'', ''python'', ''PYTHON'']) = set (map lower [''Python'', ''api''])"
    by code_simp
  have f: "set (map lower [[CHR 0xE4]]) = set (map lower [[CHR 0xC4]])"
    by code_simp
  show ?thesis
    using tag_overlap_disjoint_or_equal
            [of "blank_context\<lparr>query_tags := [''Docker'']\<rparr>" "blank_candidate\<lparr>tags := [''python'']\<rparr>"]
          tag_overlap_disjoint_or_equal
            [of "blank_context\<lparr>query_tags := [''API'', ''python'', ''PYTHON'']\<rparr>"
                "blank_candidate\<lparr>tags := [''Python'', ''api'']\<rparr>"]
          tag_overlap_disjoint_or_equal
            [of "blank_context\<lparr>query_tags := [[CHR 0xE4]]\<rparr>" "blank_candidate\<lparr>tags := [[CHR 0xC4]]\<rparr>"]
          d e f
    by simp
qed

subsection \<open>Temporal relevance\<close>

lemma default_steps_antimono:
  "d1 \<le> d2 \<Longrightarrow>
   (if d2 \<le> (7::int) then 1.0 else if d2 \<le> 30 then 0.9 else if d2 \<le> 90 then 0.8
    else if d2 \<le> 365 then 0.6 else (0.4::real))
   \<le> (if d1 \<le> 7 then 1.0 else if d1 \<le> 30 then 0.9 else if d1 \<le> 90 then 0.8
       else if d1 \<le> 365 then 0.6 else 0.4)"
  by auto

text \<open>
  C6: when the temporal preference is neither \<open>recent\<close> nor \<open>historical\<close> (that is,
  \<open>any\<close>, unset, or any other text), the temporal score does not increase with age: of
  two candidates with timestamps, the one with the later timestamp scores at least as
  high. A candidate of one day ago against one of two years ago is the instance below.
\<close>

theorem default_temporal_relevance_monotone:
  assumes "temporal_preference ctx \<noteq> Some ''recent''"
      and "temporal_preference ctx \<noteq> Some ''historical''"
      and "timestamp c1 = Some t1" and "timestamp c2 = Some t2" and "t2 \<le> t1"
  shows "calculate_temporal_relevance now c2 ctx \<le> calculate_temporal_relevance now c1 ctx"
proof -
  have "timedelta_days (now - t1) \<le> timedelta_days (now - t2)"
    using assms(5) by (simp add: timedelta_days_def zdiv_mono1)
  from default_steps_antimono[OF this] assms(1-4) show ?thesis
    by (simp add: calculate_temporal_relevance_def Let_def)
qed

theorem default_temporal_relevance_monotone_witness:
  "calculate_temporal_relevance (1000 * day) (blank_candidate\<lparr>timestamp := Some (270 * day)\<rparr>)
       (blank_context\<lparr>temporal_preference := Some ''any''\<rparr>)
     \<le> calculate_temporal_relevance (1000 * day) (blank_candidate\<lparr>timestamp := Some (999 * day)\<rparr>)
       (blank_context\<lparr>temporal_preference := Some ''any''\<rparr>)"
  using default_temporal_relevance_monotone
          [of "blank_context\<lparr>temporal_preference := Some ''any''\<rparr>"
              "blank_candidate\<lparr>timestamp := Some (999 * day)\<rparr>" "999 * day"
              "blank_candidate\<lparr>timestamp := Some (270 * day)\<rparr>" "270 * day" "1000 * day"]
  by (simp add: day_def)

subsection \<open>Context-dependent weights\<close>

lemma weights_sum_optimal:
  "weights_sum (get_optimal_weights_for_context ctx) = 1 \<longleftrightarrow>
     (temporal_preference ctx \<noteq> Some ''recent'' \<and>
      (content_type_preference ctx = None \<or> content_type_preference ctx = Some []) \<and>
      target_technologies ctx = [] \<and> contextual_factors ctx ERROR_CONTEXT = None)"
  by (auto simp: weights_sum_def get_optimal_weights_for_context_def default_weights_def Let_def
           split: option.splits)

text \<open>
  C7: the weights that \<open>get_optimal_weights_for_context\<close> returns are not renormalised.
  For a context whose temporal preference is \<open>recent\<close> they sum to 1.05, for a context
  with an \<open>ERROR_CONTEXT\<close> factor to 1.2; so there is a context whose weights do not sum
  to 1.
\<close>

theorem optimal_weights_not_normalised:
  "weights_sum (get_optimal_weights_for_context
      (blank_context\<lparr>temporal_preference := Some ''recent''\<rparr>)) = 1.05 \<and>
   weights_sum (get_optimal_weights_for_context
      (blank_context\<lparr>contextual_factors := [ERROR_CONTEXT \<mapsto> ''stack trace'']\<rparr>)) = 1.2 \<and>
   (\<exists>ctx. weights_sum (get_optimal_weights_for_context ctx) \<noteq> 1)"
proof -
  have a: "weights_sum (get_optimal_weights_for_context
      (blank_context\<lparr>temporal_preference := Some ''recent''\<rparr>)) = 1.05"
    by (simp add: weights_sum_def get_optimal_weights_for_context_def default_weights_def
          blank_context_def)
  have b: "weights_sum (get_optimal_weights_for_context
      (blank_context\<lparr>contextual_factors := [ERROR_CONTEXT \<mapsto> ''stack trace'']\<rparr>)) = 1.2"
    by (simp add: weights_sum_def get_optimal_weights_for_context_def default_weights_def
          blank_context_def)
  from a have "\<exists>ctx. weights_sum (get_optimal_weights_for_context ctx) \<noteq> 1"
    by (intro exI[of _ "blank_context\<lparr>temporal_preference := Some ''recent''\<rparr>"]) simp
  with a b show ?thesis by simp
qed

subsection \<open>Score bounds\<close>

lemma timedelta_days_nonneg: "0 \<le> d \<Longrightarrow> 0 \<le> timedelta_days d"
  by (simp add: timedelta_days_def pos_imp_zdiv_nonneg_iff)

lemma historical_bounds:
  "0 \<le> (x::real) \<Longrightarrow> 0 \<le> 0.8 + 0.2 * min 1.0 x \<and> 0.8 + 0.2 * min 1.0 x \<le> 1"
  by (auto simp: min_def)

lemma recent_bounds:
  "0 \<le> d \<Longrightarrow> 0 \<le> exp (- 0.1 * real_of_int d / 30) \<and> exp (- 0.1 * real_of_int d / 30) \<le> 1"
  by simp

lemma temporal_bounds:
  assumes "\<forall>ts. timestamp c = Some ts \<longrightarrow> ts \<le> now"
  shows "0 \<le> calculate_temporal_relevance now c ctx \<and> calculate_temporal_relevance now c ctx \<le> 1"
proof (cases "timestamp c")
  case None
  then show ?thesis by (simp add: calculate_temporal_relevance_def)
next
  case (Some ts)
  define d where "d = timedelta_days (now - ts)"
  from Some assms have d0: "0 \<le> d" by (simp add: d_def timedelta_days_nonneg)
  have eq: "calculate_temporal_relevance now c ctx =
     (if temporal_preference ctx = Some ''recent''
           then exp (- 0.1 * real_of_int d / 30)
           else if temporal_preference ctx = Some ''historical''
           then (if d > 90 then 0.8 + 0.2 * min 1.0 (real_of_int (d - 90) / 365) else 0.6)
           else if d \<le> 7 then 1.0
           else if d \<le> 30 then 0.9
           else if d \<le> 90 then 0.8
           else if d \<le> 365 then 0.6
           else 0.4)"
    unfolding calculate_temporal_relevance_def Some d_def Let_def by simp
  consider (r) "temporal_preference ctx = Some ''recent''"
    | (h) "temporal_preference ctx \<noteq> Some ''recent''" "temporal_preference ctx = Some ''historical''"
    | (a) "temporal_preference ctx \<noteq> Some ''recent''" "temporal_preference ctx \<noteq> Some ''historical''"
    by blast
  then show ?thesis
  proof cases
    case r
    have "calculate_temporal_relevance now c ctx = exp (- 0.1 * real_of_int d / 30)"
      unfolding eq using r by (rule if_P)
    with recent_bounds[OF d0] show ?thesis by (simp only:)
  next
    case h
    have e1: "calculate_temporal_relevance now c ctx =
        (if d > 90 then 0.8 + 0.2 * min 1.0 (real_of_int (d - 90) / 365) else 0.6)"
      unfolding eq using h by (simp only: if_not_P if_P if_True if_False simp_thms)
    show ?thesis
    proof (cases "d > 90")
      case True
      then have "0 \<le> real_of_int (d - 90) / 365" by simp
      from historical_bounds[OF this] True show ?thesis by (simp only: e1 if_True)
    next
      case False
      then show ?thesis by (simp add: e1)
    qed
  next
    case a
    then show ?thesis by (simp add: eq)
  qed
qed

lemma ratio_bounds: "a \<le> b \<Longrightarrow> 0 \<le> real a / real b \<and> real a / real b \<le> 1"
  by (cases "b = 0") (simp_all add: divide_le_eq_1)

lemma weighted_pair_bounds:
  "0 \<le> j \<Longrightarrow> j \<le> 1 \<Longrightarrow> 0 \<le> p \<Longrightarrow> p \<le> 1 \<Longrightarrow>
     0 \<le> 0.7 * j + 0.3 * p \<and> 0.7 * j + 0.3 * p \<le> (1::real)"
  by simp

lemma tag_bounds: "0 \<le> calculate_tag_overlap c ctx \<and> calculate_tag_overlap c ctx \<le> 1"
proof (cases "query_tags ctx = [] \<or> tags c = []")
  case True
  then show ?thesis by (auto simp: calculate_tag_overlap_def)
next
  case False
  define q where "q = set (map lower (query_tags ctx))"
  define t where "t = set (map lower (tags c))"
  have fin: "finite q" "finite t" by (simp_all add: q_def t_def)
  from False have ne: "q \<union> t \<noteq> {}" "t \<noteq> {}" by (auto simp: q_def t_def)
  have eq: "calculate_tag_overlap c ctx =
      0.7 * (real (card (q \<inter> t)) / real (card (q \<union> t))) + 0.3 * (real (card (q \<inter> t)) / real (card t))"
    using False ne unfolding calculate_tag_overlap_def Let_def q_def[symmetric] t_def[symmetric]
    by simp
  have j: "card (q \<inter> t) \<le> card (q \<union> t)" using fin by (intro card_mono) auto
  have p: "card (q \<inter> t) \<le> card t" using fin by (intro card_mono) auto
  from weighted_pair_bounds ratio_bounds[OF j] ratio_bounds[OF p] show ?thesis
    unfolding eq by blast
qed

lemma metadata_points_bounds: "0 \<le> metadata_points v e \<and> metadata_points v e \<le> 1"
  by (auto simp: metadata_points_def split: pyval.splits)

lemma sum_points_bounds:
  "0 \<le> sum_list (map (\<lambda>(key, e). case m key of None \<Rightarrow> 0 | Some v \<Rightarrow> metadata_points v e) reqs) \<and>
   sum_list (map (\<lambda>(key, e). case m key of None \<Rightarrow> 0 | Some v \<Rightarrow> metadata_points v e) reqs) \<le> real (length reqs)"
proof (induction reqs)
  case Nil show ?case by simp
next
  case (Cons a reqs)
  obtain k e where a: "a = (k, e)" by (cases a)
  have "0 \<le> (case m k of None \<Rightarrow> 0 | Some v \<Rightarrow> metadata_points v e) \<and> (case m k of None \<Rightarrow> 0 | Some v \<Rightarrow> metadata_points v e) \<le> 1"
    using metadata_points_bounds by (simp split: option.splits)
  with Cons show ?case by (simp add: a)
qed

lemma metadata_bounds: "0 \<le> calculate_metadata_match c ctx \<and> calculate_metadata_match c ctx \<le> 1"
proof (cases "metadata_requirements ctx = []")
  case True then show ?thesis by (simp add: calculate_metadata_match_def)
next
  case False
  then have l: "0 < real (length (metadata_requirements ctx))" by simp
  from sum_points_bounds[of "metadata c" "metadata_requirements ctx"] l False
  show ?thesis
    by (simp add: calculate_metadata_match_def Let_def divide_le_eq_1)
qed

lemma content_type_bounds: "0 \<le> calculate_content_type_match c ctx \<and> calculate_content_type_match c ctx \<le> 1"
  by (simp add: calculate_content_type_match_def Let_def split: option.splits)

lemma technology_bounds:
  "0 \<le> calculate_technology_alignment c ctx \<and> calculate_technology_alignment c ctx \<le> 1"
proof -
  have "card (Set.filter (tech_aligned c) (set (target_technologies ctx)))
      \<le> card (set (target_technologies ctx))"
    by (intro card_mono) auto
  then show ?thesis
    by (simp add: calculate_technology_alignment_def Let_def divide_le_eq_1)
qed

lemma contextual_bounds: "0 \<le> calculate_contextual_similarity c ctx \<and> calculate_contextual_similarity c ctx \<le> 1"
  by (simp add: calculate_contextual_similarity_def Let_def split: option.splits)

lemma usage_bounds: "0 \<le> calculate_usage_frequency c ctx \<and> calculate_usage_frequency c ctx \<le> 1"
proof (cases "usage_count c \<le> 0")
  case True then show ?thesis by (simp add: calculate_usage_frequency_def)
next
  case False
  then have "0 \<le> ln (real_of_int (usage_count c + 1))" by simp
  then have "0 \<le> ln (real_of_int (usage_count c + 1)) / ln 10" by simp
  with False show ?thesis by (simp add: calculate_usage_frequency_def)
qed

lemma urgency_returns:
  "isl (urgency_adjustment now c ctx) \<longleftrightarrow>
     (timestamp c = None \<and> contextual_factors ctx URGENCY_LEVEL = Some ''high'')"
  by (simp add: urgency_adjustment_def split: option.splits)

lemma apply_isl:
  "isl (apply_contextual_adjustments now x c ctx) = isl (urgency_adjustment now c ctx)"
  by (simp add: apply_contextual_adjustments_def Let_def split: sum.splits prod.splits)

lemma score_isl:
  "isl (score_relevance fmt now c ctx w) = isl (urgency_adjustment now c ctx)"
  unfolding score_relevance_def Let_def apply_isl[symmetric, of now c ctx "weighted_total (case w of None \<Rightarrow> default_weights | Some w \<Rightarrow> w) (score_dimensions now c ctx)"]
  by (simp split: sum.splits prod.splits)

lemma score_relevance_returns:
  assumes "timestamp c \<noteq> None \<or> contextual_factors ctx URGENCY_LEVEL \<noteq> Some ''high''"
  shows "\<exists>r. score_relevance fmt now c ctx w = Inr r"
proof -
  from assms have "\<not> isl (score_relevance fmt now c ctx w)"
    by (auto simp: score_isl urgency_returns)
  then show ?thesis by (cases "score_relevance fmt now c ctx w") auto
qed

lemma score_relevance_Inr:
  assumes "score_relevance fmt now c ctx w = Inr r"
  shows "total_score r = min 1 (max 0 (total_score r)) \<and>
         dimension_scores r = score_dimensions now c ctx"
proof -
  let ?a = "apply_contextual_adjustments now
      (weighted_total (case w of None \<Rightarrow> default_weights | Some w \<Rightarrow> w) (score_dimensions now c ctx)) c ctx"
  show ?thesis
  proof (cases ?a)
    case (Inl e)
    with assms show ?thesis by (simp add: score_relevance_def Let_def)
  next
    case (Inr v)
    obtain t bs ps where v: "v = (t, bs, ps)" by (cases v)
    from assms Inr v show ?thesis by (auto simp: score_relevance_def Let_def)
  qed
qed

text \<open>
  C3, as the code has it: whenever \<open>score_relevance\<close> returns, for any candidate, context
  and weights, the total score lies in \<open>[0, 1]\<close>; and each of the eight dimension scores
  lies in \<open>[0, 1]\<close> provided the candidate's base similarity score lies in \<open>[0, 1]\<close> and
  its timestamp, if present, is not later than the current time. Only the total is
  clamped; the semantic dimension is the base score passed through.
\<close>

theorem score_bounds:
  assumes "score_relevance fmt now c ctx w = Inr r"
  shows "0 \<le> total_score r \<and> total_score r \<le> 1 \<and>
         (0 \<le> base_similarity_score c \<and> base_similarity_score c \<le> 1 \<and>
          (\<forall>ts. timestamp c = Some ts \<longrightarrow> ts \<le> now)
          \<longrightarrow> (\<forall>d. 0 \<le> dimension_scores r d \<and> dimension_scores r d \<le> 1))"
proof -
  note s = score_relevance_Inr[OF assms]
  have t: "0 \<le> total_score r \<and> total_score r \<le> 1" using s by linarith
  have d: "0 \<le> dimension_scores r d \<and> dimension_scores r d \<le> 1"
    if b: "0 \<le> base_similarity_score c" "base_similarity_score c \<le> 1"
      and ts: "\<forall>ts. timestamp c = Some ts \<longrightarrow> ts \<le> now" for d
  proof -
    have "0 \<le> score_dimensions now c ctx d \<and> score_dimensions now c ctx d \<le> 1"
      using b temporal_bounds[OF ts] tag_bounds metadata_bounds content_type_bounds
        technology_bounds contextual_bounds usage_bounds
      by (cases d) (simp_all add: score_dimensions_def)
    with s show ?thesis by simp
  qed
  from t d show ?thesis by blast
qed

text \<open>Two instances: a candidate of two days ago with base similarity 0.9, all of whose
  scores are in range, and the candidate of the counterexample below, whose total still
  is.\<close>

theorem score_bounds_witness:
  "(\<exists>r. score_relevance no_format (1000 * day)
          (blank_candidate\<lparr>timestamp := Some (998 * day), base_similarity_score := 0.9\<rparr>)
          blank_context None = Inr r \<and>
        0 \<le> total_score r \<and> total_score r \<le> 1 \<and>
        (\<forall>d. 0 \<le> dimension_scores r d \<and> dimension_scores r d \<le> 1)) \<and>
   (\<exists>r. score_relevance no_format (1000 * day)
          (blank_candidate\<lparr>timestamp := Some (1001 * day), base_similarity_score := 0.5\<rparr>)
          (blank_context\<lparr>temporal_preference := Some ''recent''\<rparr>) None = Inr r \<and>
        0 \<le> total_score r \<and> total_score r \<le> 1)"
proof -
  let ?c = "blank_candidate\<lparr>timestamp := Some (998 * day), base_similarity_score := 0.9\<rparr>"
  let ?c' = "blank_candidate\<lparr>timestamp := Some (1001 * day), base_similarity_score := 0.5\<rparr>"
  let ?x' = "blank_context\<lparr>temporal_preference := Some ''recent''\<rparr>"
  obtain r where r: "score_relevance no_format (1000 * day) ?c blank_context None = Inr r"
    using score_relevance_returns[of ?c blank_context no_format "1000 * day" None] by auto
  obtain r' where r': "score_relevance no_format (1000 * day) ?c' ?x' None = Inr r'"
    using score_relevance_returns[of ?c' ?x' no_format "1000 * day" None] by auto
  have h: "0 \<le> base_similarity_score ?c \<and> base_similarity_score ?c \<le> 1 \<and>
      (\<forall>ts. timestamp ?c = Some ts \<longrightarrow> ts \<le> 1000 * day)"
    by (simp add: day_def)
  from score_bounds[OF r] h r have a: "\<exists>r. score_relevance no_format (1000 * day) ?c blank_context None = Inr r \<and>
        0 \<le> total_score r \<and> total_score r \<le> 1 \<and>
        (\<forall>d. 0 \<le> dimension_scores r d \<and> dimension_scores r d \<le> 1)"
    by blast
  from score_bounds[OF r'] r' have b: "\<exists>r. score_relevance no_format (1000 * day) ?c' ?x' None = Inr r \<and>
        0 \<le> total_score r \<and> total_score r \<le> 1"
    by blast
  from a b show ?thesis by (rule conjI)
qed

text \<open>
  The claim as stated fails: a candidate with base similarity 0.5 whose timestamp is one
  day ahead of the clock, scored with the preference \<open>recent\<close>, gets a temporal
  dimension score above 1.
\<close>

theorem score_bounds_counterexample:
  "\<not> isl (score_relevance no_format (1000 * day)
            (blank_candidate\<lparr>timestamp := Some (1001 * day), base_similarity_score := 0.5\<rparr>)
            (blank_context\<lparr>temporal_preference := Some ''recent''\<rparr>) None) \<and>
   1 < dimension_scores
         (projr (score_relevance no_format (1000 * day)
            (blank_candidate\<lparr>timestamp := Some (1001 * day), base_similarity_score := 0.5\<rparr>)
            (blank_context\<lparr>temporal_preference := Some ''recent''\<rparr>) None))
         TEMPORAL_RELEVANCE"
proof -
  let ?c = "blank_candidate\<lparr>timestamp := Some (1001 * day), base_similarity_score := 0.5\<rparr>"
  let ?x = "blank_context\<lparr>temporal_preference := Some ''recent''\<rparr>"
  obtain r where r: "score_relevance no_format (1000 * day) ?c ?x None = Inr r"
    using score_relevance_returns[of ?c ?x no_format "1000 * day" None] by auto
  have "timedelta_days (1000 * day - 1001 * day) = - 1"
    by (simp add: timedelta_days_def day_def)
  then have "calculate_temporal_relevance (1000 * day) ?c ?x = exp (1 / 300)"
    by (simp add: calculate_temporal_relevance_def)
  then have "1 < dimension_scores r TEMPORAL_RELEVANCE"
    using score_relevance_Inr[OF r] by (simp add: score_dimensions_def)
  with r show ?thesis by simp
qed

subsection \<open>Missing timestamps\<close>

text \<open>
  C10: for a candidate without a timestamp, \<open>score_relevance\<close> raises \<open>TypeError\<close> when
  the contextual factors map \<open>URGENCY_LEVEL\<close> to \<open>high\<close> (the urgency adjustment
  subtracts the missing timestamp from the current time), and otherwise returns a score
  whose temporal dimension is the neutral 0.5.
\<close>

theorem missing_timestamp_completes_unless_urgent:
  assumes "timestamp c = None"
  shows "(contextual_factors ctx URGENCY_LEVEL = Some ''high'' \<longrightarrow>
            score_relevance fmt now c ctx w =
              Inl (TypeError ''unsupported operand type(s) for -: datetime and NoneType'')) \<and>
         (contextual_factors ctx URGENCY_LEVEL \<noteq> Some ''high'' \<longrightarrow>
            (\<exists>r. score_relevance fmt now c ctx w = Inr r \<and>
                 dimension_scores r TEMPORAL_RELEVANCE = 0.5))"
proof (intro conjI impI)
  assume "contextual_factors ctx URGENCY_LEVEL = Some ''high''"
  with assms have "urgency_adjustment now c ctx =
      Inl (TypeError ''unsupported operand type(s) for -: datetime and NoneType'')"
    by (simp add: urgency_adjustment_def)
  then show "score_relevance fmt now c ctx w =
      Inl (TypeError ''unsupported operand type(s) for -: datetime and NoneType'')"
    by (simp add: score_relevance_def Let_def apply_contextual_adjustments_def)
next
  assume "contextual_factors ctx URGENCY_LEVEL \<noteq> Some ''high''"
  then obtain r where r: "score_relevance fmt now c ctx w = Inr r"
    using score_relevance_returns[of c ctx fmt now w] by auto
  have "dimension_scores r TEMPORAL_RELEVANCE = 0.5"
    using score_relevance_Inr[OF r] assms
    by (simp add: score_dimensions_def calculate_temporal_relevance_def)
  with r show "\<exists>r. score_relevance fmt now c ctx w = Inr r \<and> dimension_scores r TEMPORAL_RELEVANCE = 0.5"
    by blast
qed

theorem missing_timestamp_completes_unless_urgent_witness:
  "score_relevance no_format (1000 * day) blank_candidate
      (blank_context\<lparr>contextual_factors := [URGENCY_LEVEL \<mapsto> ''high'']\<rparr>) None =
     Inl (TypeError ''unsupported operand type(s) for -: datetime and NoneType'') \<and>
   (\<exists>r. score_relevance no_format (1000 * day) blank_candidate blank_context None = Inr r \<and>
        dimension_scores r TEMPORAL_RELEVANCE = 0.5)"
proof -
  have n: "timestamp blank_candidate = None" by (simp add: blank_candidate_def)
  have u: "contextual_factors (blank_context\<lparr>contextual_factors := [URGENCY_LEVEL \<mapsto> ''high'']\<rparr>)
      URGENCY_LEVEL = Some ''high''" by simp
  have v: "contextual_factors blank_context URGENCY_LEVEL \<noteq> Some ''high''"
    by (simp add: blank_context_def)
  show ?thesis
    using missing_timestamp_completes_unless_urgent
            [OF n, of "blank_context\<lparr>contextual_factors := [URGENCY_LEVEL \<mapsto> ''high'']\<rparr>"
               no_format "1000 * day" None]
          missing_timestamp_completes_unless_urgent
            [OF n, of blank_context no_format "1000 * day" None]
          u v
    by blast
qed

section \<open>Properties of the orchestrator\<close>

subsection \<open>The loop of \<open>execute_invocations\<close>\<close>

lemma execute_step_acc:
  "execute_step ex el (rs, s) iv =
     (rs @ fst (execute_step ex el ([], s) iv), snd (execute_step ex el ([], s) iv))"
  by (simp add: execute_step_def Let_def split: sum.splits)

lemma foldl_execute_step_acc:
  "foldl (execute_step ex el) (rs, s) ivs =
     (rs @ fst (foldl (execute_step ex el) ([], s) ivs),
      snd (foldl (execute_step ex el) ([], s) ivs))"
proof (induction ivs arbitrary: rs s)
  case Nil
  show ?case by simp
next
  case (Cons iv ivs)
  obtain r1 s1 where st: "execute_step ex el ([], s) iv = (r1, s1)"
    by (cases "execute_step ex el ([], s) iv")
  have a: "execute_step ex el (rs, s) iv = (rs @ r1, s1)"
    using execute_step_acc[of ex el rs s iv] st by simp
  show ?case
    using Cons.IH[of "rs @ r1" s1] Cons.IH[of r1 s1] by (simp add: a st)
qed

lemma execute_invocations_Nil: "execute_invocations ex el s [] = ([], s)"
  by (simp add: execute_invocations_def)

lemma execute_invocations_Cons:
  "execute_invocations ex el s (iv # ivs) =
     (fst (execute_step ex el ([], s) iv)
        @ fst (execute_invocations ex el (snd (execute_step ex el ([], s) iv)) ivs),
      snd (execute_invocations ex el (snd (execute_step ex el ([], s) iv)) ivs))"
proof -
  obtain r1 s1 where st: "execute_step ex el ([], s) iv = (r1, s1)"
    by (cases "execute_step ex el ([], s) iv")
  show ?thesis
    using foldl_execute_step_acc[of ex el r1 s1 ivs] by (simp add: execute_invocations_def st)
qed

lemma step_active:
  "active_agents (snd (execute_step ex el ([], s) iv)) = active_agents s - {agent_type iv}"
  by (auto simp: execute_step_def Let_def split: sum.splits)

lemma step_history:
  "agent_history (snd (execute_step ex el ([], s) iv)) =
     agent_history s @
       (if agent_type iv \<in> active_agents s \<or> isl (ex iv) then [] else [result_of ex el iv])"
  by (auto simp: execute_step_def Let_def result_of_def split: sum.splits)

lemma step_results:
  "fst (execute_step ex el ([], s) iv) =
     (if agent_type iv \<in> active_agents s then [] else [result_of ex el iv])"
  by (auto simp: execute_step_def Let_def result_of_def failed_result_def split: sum.splits)

lemma step_failure:
  assumes "agent_type iv \<notin> active_agents s" and "ex iv = Inl msg"
  shows "execute_step ex el ([], s) iv = ([failed_result iv msg], s)"
  using assms by (simp add: execute_step_def Let_def failed_result_def)

lemma step_skip:
  assumes "agent_type iv \<in> active_agents s"
  shows "execute_step ex el ([], s) iv = ([], s\<lparr>active_agents := active_agents s - {agent_type iv}\<rparr>)"
  using assms by (simp add: execute_step_def)

lemma active_after:
  "active_agents (snd (execute_invocations ex el s ivs)) = active_agents s - agent_type ` set ivs"
proof (induction ivs arbitrary: s)
  case Nil
  show ?case by (simp add: execute_invocations_Nil)
next
  case (Cons iv ivs)
  show ?case by (auto simp: execute_invocations_Cons Cons.IH step_active)
qed

lemma results_executed:
  "fst (execute_invocations ex el s ivs) = map (result_of ex el) (executed (active_agents s) ivs)"
proof (induction ivs arbitrary: s)
  case Nil
  show ?case by (simp add: execute_invocations_Nil)
next
  case (Cons iv ivs)
  show ?case by (simp add: execute_invocations_Cons Cons.IH step_active step_results)
qed

lemma history_executed:
  "agent_history (snd (execute_invocations ex el s ivs)) =
     agent_history s @
       map (result_of ex el) (filter (\<lambda>i. \<not> isl (ex i)) (executed (active_agents s) ivs))"
proof (induction ivs arbitrary: s)
  case Nil
  show ?case by (simp add: execute_invocations_Nil)
next
  case (Cons iv ivs)
  show ?case by (simp add: execute_invocations_Cons Cons.IH step_active step_history)
qed

text \<open>
  C8: when \<open>execute_invocations\<close> has returned, no agent type of an invocation of the
  batch is marked active; the active set is the one before the call without the types of
  the batch. An invocation that is skipped because its type is already marked produces no
  result and still takes the mark away, a mark that it did not set.
\<close>

theorem active_agents_cleared:
  "(\<forall>iv \<in> set ivs. agent_type iv \<notin> active_agents (snd (execute_invocations ex el s ivs))) \<and>
   active_agents (snd (execute_invocations ex el s ivs)) = active_agents s - agent_type ` set ivs \<and>
   (agent_type iv0 \<in> active_agents s \<longrightarrow>
      execute_invocations ex el s [iv0] =
        ([], s\<lparr>active_agents := active_agents s - {agent_type iv0}\<rparr>))"
proof (intro conjI impI)
  show "\<forall>iv \<in> set ivs. agent_type iv \<notin> active_agents (snd (execute_invocations ex el s ivs))"
    by (simp add: active_after)
  show "active_agents (snd (execute_invocations ex el s ivs)) = active_agents s - agent_type ` set ivs"
    by (rule active_after)
next
  assume "agent_type iv0 \<in> active_agents s"
  then show "execute_invocations ex el s [iv0] =
      ([], s\<lparr>active_agents := active_agents s - {agent_type iv0}\<rparr>)"
    by (simp add: execute_invocations_Cons execute_invocations_Nil step_skip)
qed

theorem active_agents_cleared_witness:
  "MEMORY_STORE \<in> active_agents \<lparr>active_agents = {MEMORY_STORE}, agent_history = []\<rparr> \<and>
   MEMORY_STORE \<notin> active_agents (snd (execute_invocations failing_debug_agent (\<lambda>i. 0)
      \<lparr>active_agents = {MEMORY_STORE}, agent_history = []\<rparr> [store_invocation])) \<and>
   execute_invocations failing_debug_agent (\<lambda>i. 0)
      \<lparr>active_agents = {MEMORY_STORE}, agent_history = []\<rparr> [store_invocation] =
     ([], \<lparr>active_agents = {}, agent_history = []\<rparr>)"
  using active_agents_cleared
          [of "[store_invocation]" failing_debug_agent "\<lambda>i. 0"
              "\<lparr>active_agents = {MEMORY_STORE}, agent_history = []\<rparr>" store_invocation]
  by (simp add: store_invocation_def)

text \<open>
  C9: an invocation that reaches the agent and raises contributes its failed result
  (\<open>success\<close> false, the message kept) to the returned list and leaves the orchestrator
  as it was, history included; the rest of the batch runs as it would have run without
  it. Over a whole batch, the returned list holds one result for every invocation that
  was not skipped, and the history grows by the results of those that did not raise.
\<close>

theorem history_only_without_exception:
  "(agent_type iv \<notin> active_agents s \<and> ex iv = Inl msg \<longrightarrow>
      execute_invocations ex el s (iv # rest) =
        (failed_result iv msg # fst (execute_invocations ex el s rest),
         snd (execute_invocations ex el s rest))) \<and>
   success (failed_result iv msg) = False \<and>
   error_message (failed_result iv msg) = Some msg \<and>
   fst (execute_invocations ex el s ivs) =
     map (result_of ex el) (executed (active_agents s) ivs) \<and>
   agent_history (snd (execute_invocations ex el s ivs)) =
     agent_history s @
       map (result_of ex el) (filter (\<lambda>i. \<not> isl (ex i)) (executed (active_agents s) ivs))"
proof (intro conjI impI)
  assume "agent_type iv \<notin> active_agents s \<and> ex iv = Inl msg"
  then show "execute_invocations ex el s (iv # rest) =
      (failed_result iv msg # fst (execute_invocations ex el s rest),
       snd (execute_invocations ex el s rest))"
    by (simp add: execute_invocations_Cons step_failure)
next
  show "success (failed_result iv msg) = False"
    by (simp add: failed_result_def)
  show "error_message (failed_result iv msg) = Some msg"
    by (simp add: failed_result_def)
  show "fst (execute_invocations ex el s ivs) =
      map (result_of ex el) (executed (active_agents s) ivs)"
    by (rule results_executed)
  show "agent_history (snd (execute_invocations ex el s ivs)) =
      agent_history s @
        map (result_of ex el) (filter (\<lambda>i. \<not> isl (ex i)) (executed (active_agents s) ivs))"
    by (rule history_executed)
qed

theorem history_only_without_exception_witness:
  "execute_invocations failing_debug_agent (\<lambda>i. 0)
      \<lparr>active_agents = {}, agent_history = []\<rparr> [debug_invocation, store_invocation] =
     (failed_result debug_invocation ''agent unavailable''
        # fst (execute_invocations failing_debug_agent (\<lambda>i. 0)
                \<lparr>active_agents = {}, agent_history = []\<rparr> [store_invocation]),
      snd (execute_invocations failing_debug_agent (\<lambda>i. 0)
             \<lparr>active_agents = {}, agent_history = []\<rparr> [store_invocation]))"
proof -
  let ?s = "\<lparr>active_agents = {}, agent_history = []\<rparr>"
  have h: "agent_type debug_invocation \<notin> active_agents ?s \<and>
      failing_debug_agent debug_invocation = Inl ''agent unavailable''"
    by (simp add: failing_debug_agent_def debug_invocation_def)
  show ?thesis
    using history_only_without_exception
            [of debug_invocation ?s failing_debug_agent "''agent unavailable''" "\<lambda>i. 0"
                "[store_invocation]" "[]"]
          h
    by blast
qed

subsection \<open>Scenario A of the specification\<close>

lemma scenario_A_decision: "contains_decision_content (lower scenario_A)"
  by code_simp

lemma scenario_A_no_error: "\<not> contains_error_content (lower scenario_A)"
  by code_simp

lemma scenario_A_no_task: "\<not> contains_task_content (lower scenario_A)"
  by code_simp

lemma scenario_A_no_test: "\<not> contains_test_content (lower scenario_A)"
  by code_simp

lemma scenario_A_no_context_request: "\<not> contains_context_request (lower scenario_A)"
  by code_simp

text \<open>
  C2, as the code has it: for the text of scenario A, \<open>analyze_context\<close> returns exactly
  one invocation, the \<open>memory-store\<close> one with trigger \<open>DECISION_MADE\<close> (the text
  contains \<open>decided\<close>). No task indicator occurs in the text, and \<open>use\<close> is not one of
  them, so there is no \<open>memory-context\<close> invocation.
\<close>

theorem scenario_A_store_only:
  "analyze_context scenario_A meta =
     [\<lparr>agent_type = MEMORY_STORE, trigger = DECISION_MADE,
       inv_context = [(''content'', VStr scenario_A), (''metadata'', VMeta meta),
                      (''auto_store'', VBool True),
                      (''reason'', VStr ''Decision or solution detected'')],
       inv_priority = 1, dependencies = None\<rparr>]"
  by (simp add: analyze_context_def scenario_A_decision scenario_A_no_error scenario_A_no_task
        scenario_A_no_test scenario_A_no_context_request)

text \<open>The claim as stated fails: the list for scenario A holds no invocation of the agent
  \<open>MEMORY_CONTEXT\<close>.\<close>

theorem scenario_A_counterexample:
  "MEMORY_CONTEXT \<notin> set (map agent_type (analyze_context scenario_A []))"
  by (simp add: analyze_context_def scenario_A_decision scenario_A_no_error scenario_A_no_task
        scenario_A_no_test scenario_A_no_context_request)

section \<open>Properties of the context builder\<close>

lemma sort_key_least_first:
  assumes "\<forall>y \<in> set xs. f x \<le> f y"
  shows "sort_key f (x # xs) = x # sort_key f xs"
proof (cases "sort_key f xs")
  case Nil
  then show ?thesis by simp
next
  case (Cons y ys)
  then have "y \<in> set (sort_key f xs)" by simp
  then have "y \<in> set xs" by simp
  with assms have "f x \<le> f y" by blast
  with Cons show ?thesis by simp
qed

lemma priority_value_ge_1: "1 \<le> priority_value p"
  by (cases p) simp_all

lemma overview_fields:
  "section_type (create_overview_section ord fmt now its d) = S_OVERVIEW \<and>
   section_priority (create_overview_section ord fmt now its d) = CRITICAL \<and>
   length (items (create_overview_section ord fmt now its d)) = 1"
  by (simp add: create_overview_section_def Let_def)

lemma max_items_pos: "0 < get_max_items_for_section st"
  by (cases st) simp_all

lemma limited_items_nonempty:
  assumes "its \<noteq> []"
  shows "take (get_max_items_for_section st) (sort_by_relevance its) \<noteq> []"
proof -
  have "length (sort_by_relevance its) = length its" by (simp add: sort_by_relevance_def)
  with assms have "sort_by_relevance its \<noteq> []" by auto
  with max_items_pos[of st] show ?thesis by simp
qed

lemma created_sections_nonempty:
  assumes "s \<in> set (create_context_sections sd d)"
  shows "items s \<noteq> []"
proof -
  from assms obtain st its where ne: "its \<noteq> []"
    and s: "items s = take (get_max_items_for_section st) (sort_by_relevance its)"
    by (auto simp: create_context_sections_def Let_def split: if_splits)
  from limited_items_nonempty[OF ne] s show ?thesis by simp
qed

lemma special_sections_nonempty:
  assumes "\<forall>s \<in> set secs. items s \<noteq> []"
  shows "\<forall>s \<in> set (add_special_sections ord fmt now secs its d). items s \<noteq> []"
proof -
  have "take 5 xs \<noteq> []" if "xs \<noteq> []" for xs :: "ContextItem list" using that by simp
  with assms overview_fields[of ord fmt now its d] show ?thesis
    by (auto simp: add_special_sections_def Let_def simp del: take_eq_Nil)
qed

lemma special_sections_Cons:
  "\<exists>rest. add_special_sections ord fmt now secs its d = create_overview_section ord fmt now its d # rest"
  by (simp add: add_special_sections_def Let_def)

lemma sections_eq:
  "sections (assemble_context ord strptime fmt now el d mr) =
     sort_key (\<lambda>s. priority_value (section_priority s))
       (add_special_sections ord fmt now
          (create_context_sections
             (group_items_by_section (parse_memory_results strptime now mr d)) d)
          (parse_memory_results strptime now mr d) d)"
  by (simp add: assemble_context_def Let_def)

text \<open>
  C4: for every decomposition and every dictionary of results, the empty one included,
  the sections of the assembled context are not empty; the first section, after the sort
  by priority, is the synthesised overview, of type \<open>OVERVIEW\<close> and priority
  \<open>CRITICAL\<close> with one item; and no section has an empty list of items.
\<close>

theorem overview_first_and_no_empty_section:
  "sections (assemble_context ord strptime fmt now el d mr) \<noteq> [] \<and>
   hd (sections (assemble_context ord strptime fmt now el d mr)) =
     create_overview_section ord fmt now (parse_memory_results strptime now mr d) d \<and>
   section_type (hd (sections (assemble_context ord strptime fmt now el d mr))) = S_OVERVIEW \<and>
   section_priority (hd (sections (assemble_context ord strptime fmt now el d mr))) = CRITICAL \<and>
   length (items (hd (sections (assemble_context ord strptime fmt now el d mr)))) = 1 \<and>
   (\<forall>s \<in> set (sections (assemble_context ord strptime fmt now el d mr)). items s \<noteq> [])"
proof -
  let ?its = "parse_memory_results strptime now mr d"
  let ?secs0 = "create_context_sections (group_items_by_section ?its) d"
  let ?ov = "create_overview_section ord fmt now ?its d"
  let ?f = "\<lambda>s. priority_value (section_priority s)"
  obtain rest where r: "add_special_sections ord fmt now ?secs0 ?its d = ?ov # rest"
    using special_sections_Cons by blast
  have "?f ?ov = 1" by (simp add: overview_fields)
  then have "\<forall>y \<in> set rest. ?f ?ov \<le> ?f y" by (simp add: priority_value_ge_1)
  then have "sort_key ?f (?ov # rest) = ?ov # sort_key ?f rest"
    by (rule sort_key_least_first)
  then have s: "sections (assemble_context ord strptime fmt now el d mr) = ?ov # sort_key ?f rest"
    by (simp only: sections_eq r)
  have ne: "\<forall>s \<in> set (sections (assemble_context ord strptime fmt now el d mr)). items s \<noteq> []"
    using special_sections_nonempty[of ?secs0 ord fmt now ?its d] created_sections_nonempty
    by (simp add: sections_eq)
  from s ne overview_fields[of ord fmt now ?its d] show ?thesis by simp
qed

theorem overview_first_and_no_empty_section_witness:
  "sections (assemble_context table_order no_strptime no_format (1000 * day) 0 sample_decomposition sample_results)
     \<noteq> [] \<and>
   items (hd (sections (assemble_context table_order no_strptime no_format (1000 * day) 0 sample_decomposition
     sample_results))) \<noteq> [] \<and>
   sections (assemble_context table_order no_strptime no_format (1000 * day) 0 sample_decomposition []) \<noteq> []"
  using overview_first_and_no_empty_section
          [of table_order no_strptime no_format "1000 * day" 0 sample_decomposition sample_results]
        overview_first_and_no_empty_section
          [of table_order no_strptime no_format "1000 * day" 0 sample_decomposition "[]"]
  by (auto simp del: length_0_conv)

section \<open>Properties of the task decomposer\<close>

lemma categorize_empty: "categorize_task [] = IMPLEMENTATION"
  by code_simp

lemma technologies_empty: "extract_technologies [] = []"
  by code_simp

lemma categorize_blank: "categorize_task ''   '' = IMPLEMENTATION"
  by code_simp

lemma technologies_blank: "extract_technologies ''   '' = []"
  by code_simp

lemma no_and_empty: "\<not> contains_str ''and'' (lower [])"
  by code_simp

lemma no_and_blank: "\<not> contains_str ''and'' (lower ''   '')"
  by code_simp

text \<open>
  C1: what \<open>decompose_task\<close> does on the empty text and on a text of three spaces. The
  category is the default \<open>IMPLEMENTATION\<close> and no technology is found, but the call
  raises \<open>AttributeError\<close> instead of returning a decomposition. With the class as it
  is, every text raises, in \<open>_identify_components\<close>, since \<open>_generate_search_terms\<close>
  is not defined; with that method supplied, the empty and the blank text raise in
  \<open>_generate_success_criteria\<close>, which reads \<open>TaskCategory.PERFORMANCE\<close> for the main
  component.
\<close>

theorem decompose_task_raises:
  "categorize_task [] = IMPLEMENTATION \<and> extract_technologies [] = [] \<and>
   decompose_task ord None text = Inl (AttributeError ''_generate_search_terms'') \<and>
   decompose_task ord (Some f) [] = Inl (AttributeError ''PERFORMANCE'') \<and>
   decompose_task ord (Some f) ''   '' = Inl (AttributeError ''PERFORMANCE'')"
proof -
  have a: "decompose_task ord None text = Inl (AttributeError ''_generate_search_terms'')"
    by (simp add: decompose_task_def identify_components_def make_component_def)
  have b: "decompose_task ord (Some f) [] = Inl (AttributeError ''PERFORMANCE'')"
    by (simp add: decompose_task_def identify_components_def make_component_def
          categorize_empty technologies_empty no_and_empty generate_success_criteria_def)
  have c: "decompose_task ord (Some f) ''   '' = Inl (AttributeError ''PERFORMANCE'')"
    by (simp add: decompose_task_def identify_components_def make_component_def
          categorize_blank technologies_blank no_and_blank generate_success_criteria_def)
  from a b c categorize_empty technologies_empty show ?thesis by simp
qed

end
